theory Spec2Isabelle
  imports Complex_Main "HOL-Library.Word" "HOL-Library.List_Lexorder"
begin

section \<open>Values of the host language\<close>

text \<open>
  The scoring endpoint lives in \<^verbatim>\<open>src/app/api/analyze-pitch/route.ts\<close>. That file holds
  two handlers; the one modelled here is the later one, with the request fields
  \<^verbatim>\<open>ciphertext\<close>, \<^verbatim>\<open>aes_key\<close> and \<^verbatim>\<open>iv\<close> and the response fields \<^verbatim>\<open>scores\<close>,
  \<^verbatim>\<open>receipt\<close>, \<^verbatim>\<open>timestamp\<close> and \<^verbatim>\<open>model\<close>. The client-side encryption is in
  \<^verbatim>\<open>src/utils/encryption.ts\<close>.

  A JavaScript string is a sequence of 16-bit code units and \<^verbatim>\<open>length\<close> counts code
  units; a buffer is a sequence of bytes. Numbers are modelled as real numbers: the
  values that matter here are parsed JSON numbers (never NaN) and the results of a few
  arithmetic operations.
\<close>

type_synonym byte = "8 word"
type_synonym jsstring = "16 word list"

definition js :: "string \<Rightarrow> jsstring" where
  "js s = map (\<lambda>c. of_nat (of_char c)) s"

text \<open>A parsed JSON document. An object keeps its members in insertion order.\<close>

datatype json =
    JNull
  | JBool bool
  | JNum real
  | JStr jsstring
  | JArr "json list"
  | JObj "(jsstring \<times> json) list"

text \<open>Truthiness, as used by \<^verbatim>\<open>||\<close> and \<^verbatim>\<open>!\<close>; \<open>None\<close> stands for \<^verbatim>\<open>undefined\<close>.\<close>

fun truthy :: "json \<Rightarrow> bool" where
  "truthy JNull = False"
| "truthy (JBool b) = b"
| "truthy (JNum n) = (n \<noteq> 0)"
| "truthy (JStr s) = (s \<noteq> [])"
| "truthy (JArr _) = True"
| "truthy (JObj _) = True"

datatype js_error = TypeError | SyntaxError | Error string

text \<open>
  \<^verbatim>\<open>key in v\<close>: a TypeError on a primitive, membership of the key on an object. The
  keys asked for here are never array indices or \<^verbatim>\<open>length\<close>, so an array has none of them.
\<close>

fun js_in :: "jsstring \<Rightarrow> json \<Rightarrow> js_error + bool" where
  "js_in k (JObj kv) = Inr (k \<in> fst ` set kv)"
| "js_in k (JArr _) = Inr False"
| "js_in k _ = Inl TypeError"

text \<open>
  \<^verbatim>\<open>requiredKeys.every(key => key in v)\<close>: stops at the first key that is absent, and
  throws as soon as \<^verbatim>\<open>in\<close> throws.
\<close>

fun every_in :: "jsstring list \<Rightarrow> json \<Rightarrow> js_error + bool" where
  "every_in [] v = Inr True"
| "every_in (k # ks) v =
     (case js_in k v of
        Inl e \<Rightarrow> Inl e
      | Inr False \<Rightarrow> Inr False
      | Inr True \<Rightarrow> every_in ks v)"

text \<open>
  Reading a named property \<^verbatim>\<open>v.name\<close> (or \<^verbatim>\<open>v[name]\<close>) of a value that is neither
  \<^verbatim>\<open>null\<close> nor \<^verbatim>\<open>undefined\<close>; the names read here are not defined on the prototypes of
  strings, numbers, booleans or arrays.
\<close>

fun get_prop :: "json \<Rightarrow> jsstring \<Rightarrow> json option" where
  "get_prop (JObj kv) k = map_of kv k"
| "get_prop _ k = None"

text \<open>\<^verbatim>\<open>v[0]\<close> on a value that is neither \<^verbatim>\<open>null\<close> nor \<^verbatim>\<open>undefined\<close>.\<close>

fun index0 :: "json \<Rightarrow> json option" where
  "index0 (JArr []) = None"
| "index0 (JArr (x # _)) = Some x"
| "index0 (JStr []) = None"
| "index0 (JStr (c # _)) = Some (JStr [c])"
| "index0 (JObj kv) = map_of kv (js ''0'')"
| "index0 _ = None"

text \<open>Optional chaining \<^verbatim>\<open>v?.f\<close>: \<^verbatim>\<open>undefined\<close> when \<open>v\<close> is \<^verbatim>\<open>null\<close> or \<^verbatim>\<open>undefined\<close>.\<close>

fun opt_chain :: "json option \<Rightarrow> (json \<Rightarrow> json option) \<Rightarrow> json option" where
  "opt_chain None f = None"
| "opt_chain (Some JNull) f = None"
| "opt_chain (Some v) f = f v"

section \<open>The sanitizer\<close>

definition MAX_PITCH_LENGTH :: nat where "MAX_PITCH_LENGTH = 10000"
definition MIN_PITCH_LENGTH :: nat where "MIN_PITCH_LENGTH = 50"

text \<open>\<^verbatim>\<open>s.replace(/c/g, '')\<close> for a single character \<open>c\<close>: every occurrence goes.\<close>

definition remove_all :: "16 word \<Rightarrow> jsstring \<Rightarrow> jsstring" where
  "remove_all c s = filter (\<lambda>x. x \<noteq> c) s"

text \<open>The code units that \<^verbatim>\<open>String.prototype.trim\<close> strips: white space and line terminators.\<close>

definition is_space :: "16 word \<Rightarrow> bool" where
  "is_space c \<longleftrightarrow>
     c \<in> set [0x09, 0x0A, 0x0B, 0x0C, 0x0D, 0x20, 0xA0, 0x1680, 0x2028, 0x2029,
              0x202F, 0x205F, 0x3000, 0xFEFF]
     \<or> (0x2000 \<le> c \<and> c \<le> 0x200A)"

definition trim :: "jsstring \<Rightarrow> jsstring" where
  "trim s = rev (dropWhile is_space (rev (dropWhile is_space s)))"

definition sanitizeInput :: "json \<Rightarrow> js_error + jsstring" where
  "sanitizeInput text =
     (case text of
        JStr t \<Rightarrow>
          (let sanitized =
                 remove_all 0x27 (remove_all 0x22 (remove_all 0x26
                   (remove_all 0x3E (remove_all 0x3C t))))
           in if length sanitized > MAX_PITCH_LENGTH
              then Inr (take MAX_PITCH_LENGTH sanitized)
              else Inr (trim sanitized))
      | _ \<Rightarrow> Inl (Error ''Input must be a string''))"

definition dangerous :: "16 word set" where
  "dangerous = {0x3C, 0x3E, 0x26, 0x22, 0x27}"

section \<open>Platform primitives\<close>

text \<open>
  The handler and the client call primitives of the browser and of Node.js that are not
  part of the repository. They are parameters of the model:
  \<^item> \<open>btoa\<close>: the browser's base64 encoder of a binary string;
  \<^item> \<open>Buffer_from_base64\<close>: \<^verbatim>\<open>Buffer.from(v, 'base64')\<close>, \<open>None\<close> when it throws;
  \<^item> \<open>subtle_encrypt key iv data\<close>: \<^verbatim>\<open>crypto.subtle.encrypt\<close> with AES-GCM;
  \<^item> \<open>decipher key iv tag data\<close>: \<^verbatim>\<open>createDecipheriv('aes-256-gcm', key, iv)\<close>,
    \<^verbatim>\<open>setAuthTag\<close>, \<^verbatim>\<open>update\<close> and \<^verbatim>\<open>final\<close>; \<open>None\<close> when one of them throws;
  \<^item> \<open>TextEncoder_encode\<close> and \<open>utf8_decode\<close>: the UTF-8 codec;
  \<^item> \<open>sha256_hex\<close>: \<^verbatim>\<open>createHash('sha256').update(s).digest('hex')\<close>;
  \<^item> \<open>Number_toString\<close>: the decimal rendering of a number, shared by
    \<^verbatim>\<open>toString\<close>, template literals and \<^verbatim>\<open>JSON.stringify\<close>;
  \<^item> \<open>JSON_parse\<close>: \<open>None\<close> when it throws a SyntaxError;
  \<^item> \<open>Math_sin\<close>.
\<close>

record platform =
  btoa :: "jsstring \<Rightarrow> jsstring"
  Buffer_from_base64 :: "json \<Rightarrow> byte list option"
  subtle_encrypt :: "byte list \<Rightarrow> byte list \<Rightarrow> byte list \<Rightarrow> byte list"
  decipher :: "byte list \<Rightarrow> byte list \<Rightarrow> byte list \<Rightarrow> byte list \<Rightarrow> byte list option"
  TextEncoder_encode :: "jsstring \<Rightarrow> byte list"
  utf8_decode :: "byte list \<Rightarrow> jsstring"
  sha256_hex :: "jsstring \<Rightarrow> jsstring"
  Number_toString :: "real \<Rightarrow> jsstring"
  JSON_parse :: "jsstring \<Rightarrow> json option"
  Math_sin :: "real \<Rightarrow> real"

text \<open>
  What the upstream call does: \<^verbatim>\<open>fetch\<close> rejects (a network error, or the abort of the
  30 second timer, flagged \<open>True\<close>), or resolves with a status and a body that
  \<^verbatim>\<open>response.json()\<close> parses (\<open>None\<close> when it rejects).
\<close>

datatype fetch_outcome =
    FetchRejects bool
  | FetchResolves nat "json option"

text \<open>
  The surroundings of one request: the environment variable, the upstream's answer
  to a request carrying a given pitch text, and the two readings of \<^verbatim>\<open>Date.now()\<close>
  (milliseconds), one inside the mock scorer and one for the timestamp.
\<close>

record env =
  env_OPENROUTER_API_KEY :: "jsstring option"
  fetch :: "jsstring \<Rightarrow> fetch_outcome"
  now_scoring :: int
  now_receipt :: int

section \<open>Client side: encryption\<close>

text \<open>\<^verbatim>\<open>arrayBufferToBase64\<close>: one character per byte, then \<^verbatim>\<open>btoa\<close>.\<close>

definition arrayBufferToBase64 :: "platform \<Rightarrow> byte list \<Rightarrow> jsstring" where
  "arrayBufferToBase64 P buffer = btoa P (map ucast buffer)"

record envelope =
  encryptedData :: jsstring
  key :: jsstring
  iv :: jsstring

text \<open>
  \<^verbatim>\<open>encryptPitch\<close>. The fresh key (\<^verbatim>\<open>generateKey\<close>, 256 bits, exported raw) and the
  fresh IV (\<^verbatim>\<open>generateIV\<close>, 12 random bytes) are arguments of the model.
\<close>

definition encryptPitch :: "platform \<Rightarrow> byte list \<Rightarrow> byte list \<Rightarrow> jsstring \<Rightarrow> envelope" where
  "encryptPitch P k i pitch =
     (let data = TextEncoder_encode P pitch;
          encrypted = subtle_encrypt P k i data
      in \<lparr>encryptedData = arrayBufferToBase64 P encrypted,
          key = arrayBufferToBase64 P k,
          iv = arrayBufferToBase64 P i\<rparr>)"

section \<open>Server side: decryption\<close>

definition decrypt_failed :: string where
  "decrypt_failed = ''Failed to decrypt pitch data''"

text \<open>
  \<^verbatim>\<open>decryptPitchData\<close>. Every exception inside the \<^verbatim>\<open>try\<close> block, the two length
  errors and the too-short error included, is caught and replaced by the one error
  \<^verbatim>\<open>'Failed to decrypt pitch data'\<close>. \<^verbatim>\<open>slice(-16)\<close> of a buffer shorter than 16 bytes is
  the whole buffer, and \<^verbatim>\<open>slice(0, -16)\<close> of it is empty.
\<close>

definition decryptPitchData :: "platform \<Rightarrow> json \<Rightarrow> json \<Rightarrow> json \<Rightarrow> js_error + jsstring" where
  "decryptPitchData P ciphertext_b64 key_b64 iv_b64 =
     (case Buffer_from_base64 P ciphertext_b64 of
        None \<Rightarrow> Inl (Error decrypt_failed)
      | Some ciphertext \<Rightarrow>
     (case Buffer_from_base64 P key_b64 of
        None \<Rightarrow> Inl (Error decrypt_failed)
      | Some k \<Rightarrow>
     (case Buffer_from_base64 P iv_b64 of
        None \<Rightarrow> Inl (Error decrypt_failed)
      | Some i \<Rightarrow>
        if length k \<noteq> 32 then Inl (Error decrypt_failed)
        else if length i \<noteq> 12 then Inl (Error decrypt_failed)
        else
          (let authTag = drop (length ciphertext - 16) ciphertext;
               encryptedData = take (length ciphertext - 16) ciphertext
           in case decipher P k i authTag encryptedData of
                None \<Rightarrow> Inl (Error decrypt_failed)
              | Some plain \<Rightarrow>
                  (let decrypted = utf8_decode P plain
                   in if length decrypted < MIN_PITCH_LENGTH
                      then Inl (Error decrypt_failed)
                      else Inr decrypted)))))"

section \<open>Scoring\<close>

record Scores =
  clarity :: real
  originality :: real
  team_strength :: real
  market_fit :: real

text \<open>\<^verbatim>\<open>Math.round\<close>: the nearest integer, a tie going up.\<close>

definition Math_round :: "real \<Rightarrow> real" where
  "Math_round x = of_int \<lfloor>x + 1 / 2\<rfloor>"

text \<open>The local \<^verbatim>\<open>random\<close> of the mock scorer: the fractional part of \<open>sin seed * 10000\<close>.\<close>

definition random :: "platform \<Rightarrow> real \<Rightarrow> real" where
  "random P seed = (let x = Math_sin P seed * 10000 in x - of_int \<lfloor>x\<rfloor>)"

definition getMockScores :: "platform \<Rightarrow> int \<Rightarrow> Scores" where
  "getMockScores P now =
     (let seed = of_int (now div 3600000) :: real
      in \<lparr>clarity = Math_round ((random P seed * 3 + 7) * 10) / 10,
          originality = Math_round ((random P (seed + 1) * (5 / 2) + 13 / 2) * 10) / 10,
          team_strength = Math_round ((random P (seed + 2) * (5 / 2) + 6) * 10) / 10,
          market_fit = Math_round ((random P (seed + 3) * (27 / 10) + 13 / 2) * 10) / 10\<rparr>)"

text \<open>
  The module constant \<^verbatim>\<open>OPENROUTER_API_KEY\<close>: the environment variable, or a literal
  key when the variable is unset or empty. The literal is a credential and is not
  repeated here; all that matters is that it is not empty.
\<close>

definition FALLBACK_API_KEY :: jsstring where
  "FALLBACK_API_KEY = js ''sk-or-v1-(elided)''"

definition OPENROUTER_API_KEY :: "env \<Rightarrow> jsstring" where
  "OPENROUTER_API_KEY E =
     (case env_OPENROUTER_API_KEY E of
        None \<Rightarrow> FALLBACK_API_KEY
      | Some k \<Rightarrow> if k \<noteq> [] then k else FALLBACK_API_KEY)"

definition requiredKeys :: "jsstring list" where
  "requiredKeys = [js ''clarity'', js ''originality'', js ''team_strength'', js ''market_fit'']"

text \<open>
  One round of the range loop: \<^verbatim>\<open>typeof score !== 'number' || score < 0 || score > 10\<close>
  throws.
\<close>

definition check_score :: "json \<Rightarrow> jsstring \<Rightarrow> js_error + real" where
  "check_score scores k =
     (case get_prop scores k of
        Some (JNum score) \<Rightarrow>
          if score < 0 \<or> score > 10 then Inl (Error ''Invalid score'') else Inr score
      | _ \<Rightarrow> Inl (Error ''Invalid score''))"

text \<open>The body of the inner \<^verbatim>\<open>try\<close> after \<^verbatim>\<open>JSON.parse\<close>.\<close>

definition validate_scores :: "json \<Rightarrow> js_error + Scores" where
  "validate_scores scores =
     (case every_in requiredKeys scores of
        Inl e \<Rightarrow> Inl e
      | Inr False \<Rightarrow> Inl (Error ''Missing required score categories'')
      | Inr True \<Rightarrow>
     (case check_score scores (js ''clarity'') of Inl e \<Rightarrow> Inl e | Inr c \<Rightarrow>
     (case check_score scores (js ''originality'') of Inl e \<Rightarrow> Inl e | Inr og \<Rightarrow>
     (case check_score scores (js ''team_strength'') of Inl e \<Rightarrow> Inl e | Inr t \<Rightarrow>
     (case check_score scores (js ''market_fit'') of Inl e \<Rightarrow> Inl e | Inr m \<Rightarrow>
        Inr \<lparr>clarity = c, originality = og, team_strength = t, market_fit = m\<rparr>)))))"

text \<open>\<^verbatim>\<open>data.choices?.[0]?.message?.content\<close>; reading \<^verbatim>\<open>choices\<close> of \<^verbatim>\<open>null\<close> throws.\<close>

definition reply_content :: "json \<Rightarrow> js_error + json option" where
  "reply_content data =
     (case data of
        JNull \<Rightarrow> Inl TypeError
      | _ \<Rightarrow>
          Inr (opt_chain (opt_chain (opt_chain (get_prop data (js ''choices'')) index0)
                 (\<lambda>v. get_prop v (js ''message''))) (\<lambda>v. get_prop v (js ''content''))))"

definition response_ok :: "nat \<Rightarrow> bool" where
  "response_ok st \<longleftrightarrow> 200 \<le> st \<and> st \<le> 299"

text \<open>
  \<^verbatim>\<open>analyzeWithMistral\<close>. Each failure of the upstream call ends in
  \<^verbatim>\<open>return getMockScores()\<close>. A truthy \<^verbatim>\<open>content\<close> that is not a string has no
  \<^verbatim>\<open>trim\<close> method: the call throws inside the inner \<^verbatim>\<open>try\<close>.
\<close>

definition analyzeWithMistral :: "platform \<Rightarrow> env \<Rightarrow> jsstring \<Rightarrow> Scores" where
  "analyzeWithMistral P E pitchText =
     (if OPENROUTER_API_KEY E = [] then getMockScores P (now_scoring E)
      else
        case fetch E pitchText of
          FetchRejects aborted \<Rightarrow> getMockScores P (now_scoring E)
        | FetchResolves st reply \<Rightarrow>
            if \<not> response_ok st then getMockScores P (now_scoring E)
            else
              (case reply of
                 None \<Rightarrow> getMockScores P (now_scoring E)
               | Some data \<Rightarrow>
              (case reply_content data of
                 Inl e \<Rightarrow> getMockScores P (now_scoring E)
               | Inr c \<Rightarrow>
                  (let content = (case c of
                                    None \<Rightarrow> JStr []
                                  | Some v \<Rightarrow> if truthy v then v else JStr [])
                   in if \<not> truthy content then getMockScores P (now_scoring E)
                      else
                        (case content of
                           JStr s \<Rightarrow>
                             (case JSON_parse P (trim s) of
                                None \<Rightarrow> getMockScores P (now_scoring E)
                              | Some scores \<Rightarrow>
                                  (case validate_scores scores of
                                     Inl e \<Rightarrow> getMockScores P (now_scoring E)
                                   | Inr result \<Rightarrow> result))
                         | _ \<Rightarrow> getMockScores P (now_scoring E))))))"

section \<open>The receipt\<close>

definition join_with :: "jsstring \<Rightarrow> jsstring list \<Rightarrow> jsstring" where
  "join_with sep xs = (case xs of [] \<Rightarrow> [] | y # ys \<Rightarrow> y @ concat (map (\<lambda>z. sep @ z) ys))"

text \<open>
  The string a value takes inside a template literal (the conversion \<^verbatim>\<open>ToString\<close>). A
  string is itself. An array joins the strings of its elements with commas, \<^verbatim>\<open>null\<close>
  elements being empty. A parsed object is \<^verbatim>\<open>[object Object]\<close> through the inherited
  \<^verbatim>\<open>toString\<close>; when it has a member named \<^verbatim>\<open>toString\<close> of its own, that member is
  not callable, \<^verbatim>\<open>valueOf\<close> gives no primitive either, and the conversion throws a
  TypeError.
\<close>

fun js_String :: "platform \<Rightarrow> json \<Rightarrow> js_error + jsstring"
  and js_Strings :: "platform \<Rightarrow> json list \<Rightarrow> js_error + jsstring list" where
  "js_String P JNull = Inr (js ''null'')"
| "js_String P (JBool b) = Inr (if b then js ''true'' else js ''false'')"
| "js_String P (JNum n) = Inr (Number_toString P n)"
| "js_String P (JStr s) = Inr s"
| "js_String P (JArr xs) =
     (case js_Strings P xs of
        Inl e \<Rightarrow> Inl e
      | Inr ts \<Rightarrow> Inr (join_with (js '','') ts))"
| "js_String P (JObj kv) =
     (if js ''toString'' \<in> fst ` set kv then Inl TypeError
      else Inr (js ''[object Object]''))"
| "js_Strings P [] = Inr []"
| "js_Strings P (x # xs) =
     (case (if x = JNull then Inr [] else js_String P x) of
        Inl e \<Rightarrow> Inl e
      | Inr t \<Rightarrow>
          (case js_Strings P xs of
             Inl e \<Rightarrow> Inl e
           | Inr ts \<Rightarrow> Inr (t # ts)))"

text \<open>The own enumerable properties of a score set, in the order of its literal.\<close>

definition Scores_entries :: "Scores \<Rightarrow> (jsstring \<times> real) list" where
  "Scores_entries s =
     [(js ''clarity'', clarity s), (js ''originality'', originality s),
      (js ''team_strength'', team_strength s), (js ''market_fit'', market_fit s)]"

text \<open>
  \<^verbatim>\<open>JSON.stringify(obj, keys)\<close> on an object of numbers: the members named by the
  array, in the array's order; a name the object lacks is skipped.
\<close>

definition stringify_with_keys :: "platform \<Rightarrow> (jsstring \<times> real) list \<Rightarrow> jsstring list \<Rightarrow> jsstring" where
  \<open>stringify_with_keys P entries keys =
     js ''{'' @
     join_with (js '','')
       (List.map_filter
          (\<lambda>k. case map_of entries k of
                  None \<Rightarrow> None
                | Some v \<Rightarrow> Some (js ''"'' @ k @ js ''":'' @ Number_toString P v))
          keys) @
     js ''}''\<close>

text \<open>
  \<^verbatim>\<open>generateReceipt\<close>; \<^verbatim>\<open>sort()\<close> without a comparator orders strings by code units.
  The handler passes the \<^verbatim>\<open>ciphertext\<close> field and the model name as they came out of
  the request body, so the template literal converts them, and throws when the
  conversion throws.
\<close>

definition generateReceipt :: "platform \<Rightarrow> json \<Rightarrow> json \<Rightarrow> jsstring \<Rightarrow> Scores \<Rightarrow> js_error + jsstring" where
  "generateReceipt P ciphertext modelName timestamp scores =
     (let scoresString =
            stringify_with_keys P (Scores_entries scores) (sort (map fst (Scores_entries scores)))
      in case js_String P ciphertext of
           Inl e \<Rightarrow> Inl e
         | Inr c \<Rightarrow>
             (case js_String P modelName of
                Inl e \<Rightarrow> Inl e
              | Inr m \<Rightarrow>
                  Inr (sha256_hex P
                         (c @ js ''|'' @ m @ js ''|'' @ timestamp @ js ''|'' @ scoresString))))"

section \<open>The request handler\<close>

record response =
  status :: nat
  body :: json

definition error_response :: "nat \<Rightarrow> string \<Rightarrow> response" where
  "error_response st msg = \<lparr>status = st, body = JObj [(js ''error'', JStr (js msg))]\<rparr>"

definition requiredFields :: "jsstring list" where
  "requiredFields = [js ''ciphertext'', js ''aes_key'', js ''iv'']"

definition DEFAULT_MODEL :: json where
  "DEFAULT_MODEL = JStr (js ''mistralai/mistral-small-2409'')"

text \<open>\<^verbatim>\<open>body.model || 'mistralai/mistral-small-2409'\<close>.\<close>

definition modelName_of :: "json \<Rightarrow> json" where
  "modelName_of b =
     (case get_prop b (js ''model'') of
        None \<Rightarrow> DEFAULT_MODEL
      | Some m \<Rightarrow> if truthy m then m else DEFAULT_MODEL)"

definition Scores_json :: "Scores \<Rightarrow> json" where
  "Scores_json s = JObj (map (\<lambda>(k, v). (k, JNum v)) (Scores_entries s))"

text \<open>
  \<^verbatim>\<open>POST\<close>. The argument is what \<^verbatim>\<open>request.json()\<close> yields, \<open>None\<close> when it throws.
  \<^verbatim>\<open>Buffer.from(undefined, 'base64')\<close> throws, like any other value that is not a string,
  a buffer or array-like. An exception that reaches the outer \<^verbatim>\<open>catch\<close> gives status 500:
  the field check on a body that is neither an object nor an array, and the receipt's
  template literal on a value that has no string. Every response carries the same CORS
  headers, which are left out.
\<close>

definition POST :: "platform \<Rightarrow> env \<Rightarrow> json option \<Rightarrow> response" where
  "POST P E request_json =
     (case request_json of
        None \<Rightarrow> error_response 400 ''Invalid JSON in request body''
      | Some b \<Rightarrow>
     (case every_in requiredFields b of
        Inl e \<Rightarrow> error_response 500 ''Internal server error''
      | Inr False \<Rightarrow> error_response 400 ''Missing required encryption parameters''
      | Inr True \<Rightarrow>
     (case (get_prop b (js ''ciphertext''), get_prop b (js ''aes_key''), get_prop b (js ''iv'')) of
        (Some ciphertext_b64, Some key_b64, Some iv_b64) \<Rightarrow>
          (let modelName = modelName_of b
           in if Buffer_from_base64 P ciphertext_b64 = None
                 \<or> Buffer_from_base64 P key_b64 = None
                 \<or> Buffer_from_base64 P iv_b64 = None
              then error_response 400 ''Invalid base64 encoding''
              else
                (case decryptPitchData P ciphertext_b64 key_b64 iv_b64 of
                   Inl e \<Rightarrow> error_response 400 decrypt_failed
                 | Inr pitchText \<Rightarrow>
                (case sanitizeInput (JStr pitchText) of
                   Inl e \<Rightarrow> error_response 500 ''Internal server error''
                 | Inr sanitizedPitch \<Rightarrow>
                    (let scores = analyzeWithMistral P E sanitizedPitch;
                         timestamp = Number_toString P (of_int (now_receipt E div 1000))
                     in case generateReceipt P ciphertext_b64 modelName timestamp scores of
                          Inl e \<Rightarrow> error_response 500 ''Internal server error''
                        | Inr receipt \<Rightarrow>
                            \<lparr>status = 200,
                             body = JObj [(js ''scores'', Scores_json scores),
                                          (js ''receipt'', JStr receipt),
                                          (js ''timestamp'', JStr timestamp),
                                          (js ''model'', modelName)]\<rparr>))))
      | _ \<Rightarrow> error_response 400 ''Invalid base64 encoding'')))"

section \<open>Notions of the specification\<close>

text \<open>A score set is valid when each of its four fields lies in the closed interval from 0 to 10.\<close>

definition valid_scores :: "Scores \<Rightarrow> bool" where
  "valid_scores s \<longleftrightarrow>
     0 \<le> clarity s \<and> clarity s \<le> 10 \<and> 0 \<le> originality s \<and> originality s \<le> 10 \<and>
     0 \<le> team_strength s \<and> team_strength s \<le> 10 \<and> 0 \<le> market_fit s \<and> market_fit s \<le> 10"

text \<open>
  The Primary tier in the words of the specification: the upstream call answers, with
  a 2xx status, a reply whose content parses to a score set; a network error, a timeout,
  a non-2xx status or a schema violation is a tier failure (\<open>None\<close>).
\<close>

definition primary_tier :: "platform \<Rightarrow> env \<Rightarrow> jsstring \<Rightarrow> Scores option" where
  "primary_tier P E pitchText =
     (case fetch E pitchText of
        FetchRejects aborted \<Rightarrow> None
      | FetchResolves st reply \<Rightarrow>
          if \<not> response_ok st then None
          else
            (case reply of
               None \<Rightarrow> None
             | Some data \<Rightarrow>
                 (case reply_content data of
                    Inr (Some (JStr s)) \<Rightarrow>
                      if s = [] then None
                      else
                        (case JSON_parse P (trim s) of
                           None \<Rightarrow> None
                         | Some v \<Rightarrow>
                             (case validate_scores v of Inl e \<Rightarrow> None | Inr sc \<Rightarrow> Some sc))
                  | _ \<Rightarrow> None)))"

text \<open>
  The canonical serialization of a score set, its keys in lexicographic order, and the
  receipt of the specification: the digest of the four parts joined by a bar.
\<close>

definition canonical_scores :: "platform \<Rightarrow> Scores \<Rightarrow> jsstring" where
  \<open>canonical_scores P s =
     js ''{"clarity":'' @ Number_toString P (clarity s) @
     js '',"market_fit":'' @ Number_toString P (market_fit s) @
     js '',"originality":'' @ Number_toString P (originality s) @
     js '',"team_strength":'' @ Number_toString P (team_strength s) @ js ''}''\<close>

definition Generate :: "platform \<Rightarrow> jsstring \<Rightarrow> jsstring \<Rightarrow> jsstring \<Rightarrow> Scores \<Rightarrow> jsstring" where
  "Generate P ciphertextText modelIdentity timestamp scoreSet =
     sha256_hex P (ciphertextText @ js ''|'' @ modelIdentity @ js ''|'' @ timestamp @ js ''|'' @
                   canonical_scores P scoreSet)"

text \<open>
  The laws of the primitives that the round trip rests on: decoding inverts the
  client's base64 encoding, and AES-GCM with a 32-byte key and a 12-byte IV produces
  the encrypted data followed by a 16-byte tag, under which decryption returns the data.
\<close>

definition base64_roundtrip :: "platform \<Rightarrow> bool" where
  "base64_roundtrip P \<longleftrightarrow>
     (\<forall>bs. Buffer_from_base64 P (JStr (btoa P (map ucast bs))) = Some bs)"

definition aes_gcm_correct :: "platform \<Rightarrow> bool" where
  "aes_gcm_correct P \<longleftrightarrow>
     (\<forall>k i m. length k = 32 \<longrightarrow> length i = 12 \<longrightarrow>
        (\<exists>c t. subtle_encrypt P k i m = c @ t \<and> length t = 16 \<and> decipher P k i t c = Some m))"

text \<open>
  A string is well formed when every surrogate code unit is half of a pair: a high
  surrogate is followed by a low one, and a low one follows a high one. The law of the
  UTF-8 codec: decoding the encoding of a well-formed string returns the string.
\<close>

definition is_high :: "16 word \<Rightarrow> bool" where
  "is_high u \<longleftrightarrow> 0xD800 \<le> u \<and> u \<le> 0xDBFF"

definition is_low :: "16 word \<Rightarrow> bool" where
  "is_low u \<longleftrightarrow> 0xDC00 \<le> u \<and> u \<le> 0xDFFF"

fun well_formed :: "jsstring \<Rightarrow> bool" where
  "well_formed [] = True"
| "well_formed [u] = (\<not> is_high u \<and> \<not> is_low u)"
| "well_formed (u # v # us) =
     (if is_high u then is_low v \<and> well_formed us else \<not> is_low u \<and> well_formed (v # us))"

definition utf8_roundtrip :: "platform \<Rightarrow> bool" where
  "utf8_roundtrip P \<longleftrightarrow>
     (\<forall>p. well_formed p \<longrightarrow> utf8_decode P (TextEncoder_encode P p) = p)"

text \<open>The three buffers of a request whose fields are present and decode.\<close>

definition decoded_envelope :: "platform \<Rightarrow> json \<Rightarrow> (byte list \<times> byte list \<times> byte list) option" where
  "decoded_envelope P b =
     (case (get_prop b (js ''ciphertext''), get_prop b (js ''aes_key''), get_prop b (js ''iv'')) of
        (Some c, Some k, Some i) \<Rightarrow>
          (case (Buffer_from_base64 P c, Buffer_from_base64 P k, Buffer_from_base64 P i) of
             (Some cb, Some kb, Some ib) \<Rightarrow> Some (cb, kb, ib)
           | _ \<Rightarrow> None)
      | _ \<Rightarrow> None)"

text \<open>Decryption with verification of a ciphertext that carries its tag in its last 16 bytes.\<close>

definition Decrypt :: "platform \<Rightarrow> byte list \<Rightarrow> byte list \<Rightarrow> byte list \<Rightarrow> byte list option" where
  "Decrypt P cb kb ib =
     decipher P kb ib (drop (length cb - 16) cb) (take (length cb - 16) cb)"

text \<open>
  The error taxonomy of the specification, with the length policy of the code: content
  below the minimum is a validation error, content above the maximum is accepted. The
  internal errors are the two exceptions that reach the catch-all: the field check on a
  body that is neither an object nor an array, and the receipt's template literal on a
  \<^verbatim>\<open>ciphertext\<close> or model value that has no string.
\<close>

datatype verdict =
    MalformedJson
  | InternalError
  | MissingField
  | InvalidBase64
  | DecodeError
  | AuthenticationError
  | TooShort
  | Accepted

text \<open>A request body that is an object or an array, or that failed to parse.\<close>

definition structured :: "json option \<Rightarrow> bool" where
  "structured request_json \<longleftrightarrow>
     (case request_json of
        None \<Rightarrow> True | Some (JObj kv) \<Rightarrow> True | Some (JArr xs) \<Rightarrow> True | _ \<Rightarrow> False)"

definition has_fields :: "json \<Rightarrow> bool" where
  "has_fields b \<longleftrightarrow>
     (case b of JObj kv \<Rightarrow> set requiredFields \<subseteq> fst ` set kv | _ \<Rightarrow> False)"

definition renders :: "platform \<Rightarrow> json \<Rightarrow> bool" where
  "renders P v \<longleftrightarrow> (case js_String P v of Inl e \<Rightarrow> False | Inr t \<Rightarrow> True)"

definition receipt_renders :: "platform \<Rightarrow> json \<Rightarrow> bool" where
  "receipt_renders P b \<longleftrightarrow>
     (case get_prop b (js ''ciphertext'') of
        None \<Rightarrow> False
      | Some c \<Rightarrow> renders P c \<and> renders P (modelName_of b))"

definition classify :: "platform \<Rightarrow> json option \<Rightarrow> verdict" where
  "classify P request_json =
     (case request_json of
        None \<Rightarrow> MalformedJson
      | Some b \<Rightarrow>
          if \<not> structured (Some b) then InternalError
          else if \<not> has_fields b then MissingField
          else
            (case decoded_envelope P b of
               None \<Rightarrow> InvalidBase64
             | Some (cb, kb, ib) \<Rightarrow>
                 if length kb \<noteq> 32 \<or> length ib \<noteq> 12 then DecodeError
                 else
                   (case Decrypt P cb kb ib of
                      None \<Rightarrow> AuthenticationError
                    | Some plain \<Rightarrow>
                        if length (utf8_decode P plain) < MIN_PITCH_LENGTH then TooShort
                        else if \<not> receipt_renders P b then InternalError
                        else Accepted)))"

text \<open>The status and message of every error response of the handler.\<close>

definition generic_errors :: "(nat \<times> string) list" where
  "generic_errors =
     [(400, ''Invalid JSON in request body''),
      (400, ''Missing required encryption parameters''),
      (400, ''Invalid base64 encoding''),
      (400, ''Failed to decrypt pitch data''),
      (500, ''Internal server error'')]"

text \<open>
  The timestamp of a response, and the success response as a function of the model
  name, the scores and the receipt.
\<close>

definition timestamp_of :: "platform \<Rightarrow> env \<Rightarrow> jsstring" where
  "timestamp_of P E = Number_toString P (of_int (now_receipt E div 1000))"

definition ok_response :: "platform \<Rightarrow> env \<Rightarrow> json \<Rightarrow> Scores \<Rightarrow> jsstring \<Rightarrow> response" where
  "ok_response P E m s r =
     \<lparr>status = 200,
      body = JObj [(js ''scores'', Scores_json s),
                   (js ''receipt'', JStr r),
                   (js ''timestamp'', JStr (timestamp_of P E)),
                   (js ''model'', m)]\<rparr>"

text \<open>
  What the handler answers once it has the scores: the success response with the
  receipt of the \<^verbatim>\<open>ciphertext\<close> field, the model name, the timestamp and the scores, or
  status 500 when building the receipt throws.
\<close>

definition respond :: "platform \<Rightarrow> env \<Rightarrow> json \<Rightarrow> json \<Rightarrow> Scores \<Rightarrow> response" where
  "respond P E c m s =
     (case generateReceipt P c m (timestamp_of P E) s of
        Inl e \<Rightarrow> error_response 500 ''Internal server error''
      | Inr r \<Rightarrow> ok_response P E m s r)"


text \<open>The status and the message that go with each verdict.\<close>

fun verdict_status :: "verdict \<Rightarrow> nat" where
  "verdict_status Accepted = 200"
| "verdict_status InternalError = 500"
| "verdict_status _ = 400"

fun verdict_message :: "verdict \<Rightarrow> string" where
  "verdict_message MalformedJson = ''Invalid JSON in request body''"
| "verdict_message InternalError = ''Internal server error''"
| "verdict_message MissingField = ''Missing required encryption parameters''"
| "verdict_message InvalidBase64 = ''Invalid base64 encoding''"
| "verdict_message DecodeError = ''Failed to decrypt pitch data''"
| "verdict_message AuthenticationError = ''Failed to decrypt pitch data''"
| "verdict_message TooShort = ''Failed to decrypt pitch data''"
| "verdict_message Accepted = []"

text \<open>A text without the five characters that the sanitizer removes.\<close>

definition stripped :: "jsstring \<Rightarrow> jsstring" where
  "stripped t = filter (\<lambda>x. x \<notin> dangerous) t"

section \<open>A small platform for concrete runs\<close>

text \<open>
  Concrete runs need concrete primitives. This platform is a stand-in with the
  interface of the real one: base64 is the identity on binary strings, the cipher adds
  the sum of the IV's bytes to every byte and uses the first 16 bytes of the key as
  the tag, the text codec maps a code unit to a byte, the digest wraps its input in
  brackets, every number prints as \<open>n\<close>, one reply text parses, and the sine is constant.
\<close>

definition sample_scores_json :: json where
  "sample_scores_json =
     JObj [(js ''clarity'', JNum (17 / 2)), (js ''originality'', JNum (36 / 5)),
           (js ''team_strength'', JNum (91 / 10)), (js ''market_fit'', JNum (44 / 5))]"

definition toy :: platform where
  "toy =
     \<lparr>btoa = (\<lambda>s. s),
      Buffer_from_base64 = (\<lambda>v. case v of JStr s \<Rightarrow> Some (map ucast s) | _ \<Rightarrow> None),
      subtle_encrypt = (\<lambda>k i m. map (\<lambda>x. x + sum_list i) m @ take 16 k),
      decipher = (\<lambda>k i t c. if t = take 16 k then Some (map (\<lambda>x. x - sum_list i) c) else None),
      TextEncoder_encode = map ucast,
      utf8_decode = map ucast,
      sha256_hex = (\<lambda>s. js ''['' @ s @ js '']''),
      Number_toString = (\<lambda>r. js ''n''),
      JSON_parse = (\<lambda>s. if s = js ''scores'' then Some sample_scores_json else None),
      Math_sin = (\<lambda>x. 0)\<rparr>"

text \<open>
  The UTF-8 codec of the Encoding Standard. The encoder is the one of
  \<^verbatim>\<open>TextEncoder\<close>: a surrogate pair is one code point of four bytes, and a surrogate
  that is not half of a pair is encoded as U+FFFD. The decoder turns a code point above
  U+FFFF into a surrogate pair and an ill-formed byte into U+FFFD.
\<close>

definition enc1 :: "nat \<Rightarrow> byte list" where
  "enc1 cp =
     (if cp < 0x80 then [of_nat cp]
      else if cp < 0x800 then [of_nat (0xC0 + cp div 64), of_nat (0x80 + cp mod 64)]
      else if cp < 0x10000 then
        [of_nat (0xE0 + cp div 4096), of_nat (0x80 + cp div 64 mod 64), of_nat (0x80 + cp mod 64)]
      else
        [of_nat (0xF0 + cp div 262144), of_nat (0x80 + cp div 4096 mod 64),
         of_nat (0x80 + cp div 64 mod 64), of_nat (0x80 + cp mod 64)])"

fun utf8_encode :: "jsstring \<Rightarrow> byte list" where
  "utf8_encode [] = []"
| "utf8_encode [u] = (if is_high u \<or> is_low u then enc1 0xFFFD else enc1 (unat u))"
| "utf8_encode (u # v # us) =
     (if is_high u \<and> is_low v
      then enc1 (0x10000 + (unat u - 0xD800) * 1024 + (unat v - 0xDC00)) @ utf8_encode us
      else if is_high u \<or> is_low u then enc1 0xFFFD @ utf8_encode (v # us)
      else enc1 (unat u) @ utf8_encode (v # us))"

definition is_cont :: "byte \<Rightarrow> bool" where
  "is_cont c \<longleftrightarrow> 0x80 \<le> c \<and> c \<le> 0xBF"

fun utf8_decode_std :: "byte list \<Rightarrow> jsstring" where
  "utf8_decode_std [] = []"
| "utf8_decode_std (b # bs) =
     (if b < 0x80 then ucast b # utf8_decode_std bs
      else if 0xC2 \<le> b \<and> b \<le> 0xDF then
        (case bs of
           c1 # r \<Rightarrow>
             if is_cont c1
             then of_nat ((unat b - 0xC0) * 64 + (unat c1 - 0x80)) # utf8_decode_std r
             else 0xFFFD # utf8_decode_std bs
         | [] \<Rightarrow> [0xFFFD])
      else if 0xE0 \<le> b \<and> b \<le> 0xEF then
        (case bs of
           c1 # c2 # r \<Rightarrow>
             if is_cont c1 \<and> is_cont c2
                \<and> 0x800 \<le> (unat b - 0xE0) * 4096 + (unat c1 - 0x80) * 64 + (unat c2 - 0x80)
                \<and> \<not> (0xD800 \<le> (unat b - 0xE0) * 4096 + (unat c1 - 0x80) * 64 + (unat c2 - 0x80)
                      \<and> (unat b - 0xE0) * 4096 + (unat c1 - 0x80) * 64 + (unat c2 - 0x80)
                          \<le> 0xDFFF)
             then of_nat ((unat b - 0xE0) * 4096 + (unat c1 - 0x80) * 64 + (unat c2 - 0x80))
                    # utf8_decode_std r
             else 0xFFFD # utf8_decode_std bs
         | _ \<Rightarrow> 0xFFFD # utf8_decode_std bs)
      else if 0xF0 \<le> b \<and> b \<le> 0xF4 then
        (case bs of
           c1 # c2 # c3 # r \<Rightarrow>
             if is_cont c1 \<and> is_cont c2 \<and> is_cont c3
                \<and> 0x10000 \<le> (unat b - 0xF0) * 262144 + (unat c1 - 0x80) * 4096
                                + (unat c2 - 0x80) * 64 + (unat c3 - 0x80)
                \<and> (unat b - 0xF0) * 262144 + (unat c1 - 0x80) * 4096
                     + (unat c2 - 0x80) * 64 + (unat c3 - 0x80) \<le> 0x10FFFF
             then of_nat (0xD800 + ((unat b - 0xF0) * 262144 + (unat c1 - 0x80) * 4096
                            + (unat c2 - 0x80) * 64 + (unat c3 - 0x80) - 0x10000) div 1024)
                  # of_nat (0xDC00 + ((unat b - 0xF0) * 262144 + (unat c1 - 0x80) * 4096
                            + (unat c2 - 0x80) * 64 + (unat c3 - 0x80) - 0x10000) mod 1024)
                  # utf8_decode_std r
             else 0xFFFD # utf8_decode_std bs
         | _ \<Rightarrow> 0xFFFD # utf8_decode_std bs)
      else 0xFFFD # utf8_decode_std bs)"

text \<open>The stand-in platform with this codec in place of the byte-per-unit one.\<close>

definition toy_utf8 :: platform where
  "toy_utf8 = toy\<lparr>TextEncoder_encode := utf8_encode, utf8_decode := utf8_decode_std\<rparr>"

text \<open>An upstream that is unreachable, and one that answers with the sample scores.\<close>

definition down_env :: env where
  "down_env =
     \<lparr>env_OPENROUTER_API_KEY = None,
      fetch = (\<lambda>t. FetchRejects False),
      now_scoring = 1700000000123,
      now_receipt = 1700000004567\<rparr>"

definition up_env :: env where
  "up_env =
     \<lparr>env_OPENROUTER_API_KEY = Some (js ''k''),
      fetch = (\<lambda>t. FetchResolves 200
                 (Some (JObj [(js ''choices'',
                    JArr [JObj [(js ''message'',
                      JObj [(js ''content'', JStr (js '' scores ''))])]])]))),
      now_scoring = 1700000000123,
      now_receipt = 1700000004567\<rparr>"

text \<open>An upstream that answers with the sample scores when the pitch text is empty, and is
  unreachable for every other text.\<close>

definition probe_env :: env where
  "probe_env =
     \<lparr>env_OPENROUTER_API_KEY = None,
      fetch = (\<lambda>t. if t = []
                 then FetchResolves 200
                   (Some (JObj [(js ''choices'',
                      JArr [JObj [(js ''message'',
                        JObj [(js ''content'', JStr (js ''scores''))])]])]))
                 else FetchRejects False),
      now_scoring = 1700000000123,
      now_receipt = 1700000004567\<rparr>"

text \<open>The request body that carries an envelope.\<close>

definition envelope_json :: "jsstring \<Rightarrow> jsstring \<Rightarrow> jsstring \<Rightarrow> json" where
  "envelope_json c k i =
     JObj [(js ''ciphertext'', JStr c), (js ''aes_key'', JStr k), (js ''iv'', JStr i)]"

text \<open>
  Requests for the stand-in platform: under a zero IV the ciphertext is the text
  followed by the tag, which is the first half of the key.
\<close>

definition toy_key :: jsstring where "toy_key = replicate 32 0x4B"
definition toy_iv :: jsstring where "toy_iv = replicate 12 0"

definition toy_request :: "jsstring \<Rightarrow> json" where
  "toy_request text = envelope_json (text @ replicate 16 0x4B) toy_key toy_iv"

text \<open>A second key and IV with the same tag, and a request whose tag does not verify.\<close>

definition toy_key2 :: jsstring where "toy_key2 = replicate 16 0x4B @ replicate 16 0x5A"
definition toy_iv2 :: jsstring where "toy_iv2 = replicate 11 0 @ [1]"

definition toy_request2 :: "jsstring \<Rightarrow> json" where
  "toy_request2 text = envelope_json (text @ replicate 16 0x4B) toy_key2 toy_iv2"

definition tampered_request :: "jsstring \<Rightarrow> json" where
  "tampered_request text = envelope_json (text @ replicate 16 0x58) toy_key toy_iv"



text \<open>
  Three plaintexts: the one of the specification's scenario, one with an accented
  letter, a currency sign and a surrogate pair, and one of 50 code units that ends in a
  high surrogate without its low one.
\<close>

definition sample_pitch :: jsstring where
  "sample_pitch =
     js ''We build an AI pitch evaluator with end-to-end encryption and no data retention.''"

definition astral_pitch :: jsstring where
  "astral_pitch =
     js ''We build an AI pitch evaluator with end-to-end encryption and no data retention.''
     @ [0xE9, 0x20AC, 0xD83D, 0xDE00]"

definition lone_surrogate_pitch :: jsstring where
  "lone_surrogate_pitch = js ''A pitch of fifty code units with a lone surrogate'' @ [0xD800]"

section \<open>Properties of the sanitizer\<close>

lemma set_trim_subset: "set (trim s) \<subseteq> set s"
proof -
  have "set (trim s) = set (dropWhile is_space (rev (dropWhile is_space s)))"
    by (simp add: trim_def)
  also have "\<dots> \<subseteq> set (rev (dropWhile is_space s))"
    by (rule set_dropWhileD [THEN subsetI])
  also have "\<dots> \<subseteq> set s"
    using set_dropWhileD [of _ is_space s] by auto
  finally show ?thesis .
qed

lemma length_trim_le: "length (trim s) \<le> length s"
proof -
  have "length (trim s) \<le> length (dropWhile is_space s)"
    unfolding trim_def length_rev
    using length_dropWhile_le [of is_space "rev (dropWhile is_space s)"] by simp
  also have "\<dots> \<le> length s" by (rule length_dropWhile_le)
  finally show ?thesis .
qed

lemma set_stripped:
  "set (remove_all 0x27 (remove_all 0x22 (remove_all 0x26
          (remove_all 0x3E (remove_all 0x3C t))))) = set t - dangerous"
  by (auto simp: remove_all_def dangerous_def)

section \<open>The mock scorer and the tiers\<close>

lemma random_range: "0 \<le> random P x \<and> random P x < 1"
  unfolding random_def Let_def by linarith

lemma Math_round_bounds:
  assumes "of_int a \<le> y" "y < of_int b"
  shows "of_int a \<le> Math_round y \<and> Math_round y \<le> of_int b"
proof -
  have "a \<le> \<lfloor>y + 1 / 2\<rfloor>" using assms(1) by (simp add: le_floor_iff)
  moreover have "\<lfloor>y + 1 / 2\<rfloor> \<le> b"
  proof -
    have "y + 1 / 2 < of_int (b + 1)" using assms(2) by simp
    then have "\<lfloor>y + 1 / 2\<rfloor> < b + 1" by (simp only: floor_less_iff)
    then show ?thesis by simp
  qed
  ultimately show ?thesis unfolding Math_round_def by simp
qed

lemma mock_field:
  assumes "0 \<le> r" "r < 1" "0 < w" "of_int a \<le> c * 10" "(w + c) * 10 \<le> of_int b"
    and "0 \<le> a" "b \<le> 100"
  shows "0 \<le> Math_round ((r * w + c) * 10) / 10 \<and> Math_round ((r * w + c) * 10) / 10 \<le> 10"
proof -
  define q where "q = r * w"
  have q0: "0 \<le> q" unfolding q_def using assms by simp
  have qw: "q < w" unfolding q_def using assms by simp
  have lo: "of_int a \<le> (q + c) * 10" using q0 assms(4) by (simp add: algebra_simps)
  have hi: "(q + c) * 10 < of_int b" using qw assms(5) by (simp add: algebra_simps)
  have ra: "(0::real) \<le> of_int a" using assms(6) by simp
  have rb: "real_of_int b \<le> 100" using assms(7) by linarith
  from Math_round_bounds [OF lo hi] ra rb show ?thesis unfolding q_def by simp
qed

lemma getMockScores_valid: "valid_scores (getMockScores P now)"
proof -
  let ?seed = "of_int (now div 3600000) :: real"
  have c: "0 \<le> Math_round ((random P ?seed * 3 + 7) * 10) / 10
           \<and> Math_round ((random P ?seed * 3 + 7) * 10) / 10 \<le> 10"
    using random_range [of P ?seed]
    by (intro mock_field [where a = 70 and b = 100]) simp_all
  have og: "0 \<le> Math_round ((random P (?seed + 1) * (5 / 2) + 13 / 2) * 10) / 10
           \<and> Math_round ((random P (?seed + 1) * (5 / 2) + 13 / 2) * 10) / 10 \<le> 10"
    using random_range [of P "?seed + 1"]
    by (intro mock_field [where a = 65 and b = 90]) simp_all
  have t: "0 \<le> Math_round ((random P (?seed + 2) * (5 / 2) + 6) * 10) / 10
           \<and> Math_round ((random P (?seed + 2) * (5 / 2) + 6) * 10) / 10 \<le> 10"
    using random_range [of P "?seed + 2"]
    by (intro mock_field [where a = 60 and b = 85]) simp_all
  have m: "0 \<le> Math_round ((random P (?seed + 3) * (27 / 10) + 13 / 2) * 10) / 10
           \<and> Math_round ((random P (?seed + 3) * (27 / 10) + 13 / 2) * 10) / 10 \<le> 10"
    using random_range [of P "?seed + 3"]
    by (intro mock_field [where a = 65 and b = 92]) simp_all
  from c og t m show ?thesis
    by (simp add: valid_scores_def getMockScores_def Let_def)
qed

lemma check_score_range: "check_score v k = Inr x \<Longrightarrow> 0 \<le> x \<and> x \<le> 10"
  by (auto simp: check_score_def split: option.splits json.splits if_splits)

lemma validate_scores_valid: "validate_scores v = Inr s \<Longrightarrow> valid_scores s"
  unfolding validate_scores_def valid_scores_def
  by (auto split: sum.splits bool.splits dest!: check_score_range)

lemma FALLBACK_API_KEY_nonempty: "FALLBACK_API_KEY \<noteq> []"
  by (simp add: FALLBACK_API_KEY_def js_def)

lemma OPENROUTER_API_KEY_nonempty: "OPENROUTER_API_KEY E \<noteq> []"
  by (simp add: OPENROUTER_API_KEY_def FALLBACK_API_KEY_nonempty split: option.splits)

lemma analyzeWithMistral_tiers:
  "analyzeWithMistral P E t =
     (case primary_tier P E t of Some s \<Rightarrow> s | None \<Rightarrow> getMockScores P (now_scoring E))"
  unfolding analyzeWithMistral_def primary_tier_def Let_def
  by (simp add: OPENROUTER_API_KEY_nonempty
           split: fetch_outcome.splits option.splits sum.splits json.splits)

lemma primary_tier_valid: "primary_tier P E t = Some s \<Longrightarrow> valid_scores s"
  unfolding primary_tier_def
  by (auto split: fetch_outcome.splits option.splits sum.splits json.splits if_splits
           dest: validate_scores_valid)

lemma analyzeWithMistral_valid: "valid_scores (analyzeWithMistral P E t)"
  by (simp add: analyzeWithMistral_tiers getMockScores_valid primary_tier_valid
           split: option.splits)

section \<open>The handler, branch by branch\<close>

lemma status_error_response [simp]: "status (error_response st msg) = st"
  by (simp add: error_response_def)

lemma every_in_fields:
  "every_in requiredFields b = Inr True \<longleftrightarrow> has_fields b"
  by (cases b) (auto simp: requiredFields_def has_fields_def split: sum.splits bool.splits)

lemma every_in_fields_False:
  "every_in requiredFields b = Inr False \<longleftrightarrow> (\<not> has_fields b \<and> structured (Some b))"
  by (cases b) (auto simp: requiredFields_def has_fields_def structured_def split: sum.splits bool.splits)

lemma has_fields_props:
  assumes "has_fields b"
  shows "\<exists>c k i. get_prop b (js ''ciphertext'') = Some c
      \<and> get_prop b (js ''aes_key'') = Some k \<and> get_prop b (js ''iv'') = Some i"
proof (cases b)
  case (JObj kv)
  have "\<And>k. k \<in> fst ` set kv \<Longrightarrow> \<exists>v. map_of kv k = Some v"
    using map_of_eq_None_iff [of kv] by (metis not_Some_eq)
  with assms JObj show ?thesis
    by (simp add: has_fields_def requiredFields_def)
qed (use assms in \<open>simp_all add: has_fields_def\<close>)

lemma decryptPitchData_parts:
  assumes "Buffer_from_base64 P c = Some cb" "Buffer_from_base64 P k = Some kb"
    "Buffer_from_base64 P i = Some ib"
  shows "decryptPitchData P c k i =
     (if length kb \<noteq> 32 \<or> length ib \<noteq> 12 then Inl (Error decrypt_failed)
      else case Decrypt P cb kb ib of
             None \<Rightarrow> Inl (Error decrypt_failed)
           | Some plain \<Rightarrow>
               if length (utf8_decode P plain) < MIN_PITCH_LENGTH then Inl (Error decrypt_failed)
               else Inr (utf8_decode P plain))"
  using assms by (simp add: decryptPitchData_def Decrypt_def Let_def split: option.splits)

lemma POST_unstructured:
  "\<not> structured rq \<Longrightarrow> POST P E rq = error_response 500 ''Internal server error''"
  by (cases rq; cases "the rq") (auto simp: POST_def structured_def requiredFields_def)

lemma POST_malformed: "POST P E None = error_response 400 ''Invalid JSON in request body''"
  by (simp add: POST_def)

lemma POST_missing:
  assumes "structured (Some b)" "\<not> has_fields b"
  shows "POST P E (Some b) = error_response 400 ''Missing required encryption parameters''"
proof -
  from assms have "every_in requiredFields b = Inr False" by (simp add: every_in_fields_False)
  then show ?thesis by (simp add: POST_def)
qed

lemma POST_fields:
  assumes "get_prop b (js ''ciphertext'') = Some c" "get_prop b (js ''aes_key'') = Some k"
    "get_prop b (js ''iv'') = Some i"
  shows "POST P E (Some b) =
     (if Buffer_from_base64 P c = None \<or> Buffer_from_base64 P k = None
         \<or> Buffer_from_base64 P i = None
      then error_response 400 ''Invalid base64 encoding''
      else case decryptPitchData P c k i of
             Inl e \<Rightarrow> error_response 400 decrypt_failed
           | Inr p \<Rightarrow>
               (case sanitizeInput (JStr p) of
                  Inl e \<Rightarrow> error_response 500 ''Internal server error''
                | Inr sp \<Rightarrow> respond P E c (modelName_of b) (analyzeWithMistral P E sp)))"
proof -
  from assms(1) obtain kv where b: "b = JObj kv" by (cases b) auto
  from assms have "has_fields b"
    unfolding b has_fields_def requiredFields_def
    by (auto dest!: map_of_SomeD intro: rev_image_eqI)
  then have "every_in requiredFields b = Inr True" by (simp add: every_in_fields)
  then show ?thesis using assms
    by (simp add: POST_def respond_def ok_response_def timestamp_of_def Let_def
          split: sum.splits)
qed

section \<open>Runs on the stand-in platform\<close>

lemma toy_simps [simp]:
  "btoa toy = (\<lambda>s. s)"
  "Buffer_from_base64 toy = (\<lambda>v. case v of JStr s \<Rightarrow> Some (map ucast s) | _ \<Rightarrow> None)"
  "subtle_encrypt toy = (\<lambda>k i m. map (\<lambda>x. x + sum_list i) m @ take 16 k)"
  "decipher toy = (\<lambda>k i t c. if t = take 16 k then Some (map (\<lambda>x. x - sum_list i) c) else None)"
  "TextEncoder_encode toy = map ucast"
  "utf8_decode toy = map ucast"
  "sha256_hex toy = (\<lambda>s. js ''['' @ s @ js '']'')"
  "Number_toString toy = (\<lambda>r. js ''n'')"
  "JSON_parse toy = (\<lambda>s. if s = js ''scores'' then Some sample_scores_json else None)"
  "Math_sin toy = (\<lambda>x. 0)"
  by (simp_all add: toy_def)

lemma toy_request_props [simp]:
  "get_prop (toy_request t) (js ''ciphertext'') = Some (JStr (t @ replicate 16 0x4B))"
  "get_prop (toy_request t) (js ''aes_key'') = Some (JStr toy_key)"
  "get_prop (toy_request t) (js ''iv'') = Some (JStr toy_iv)"
  "get_prop (toy_request t) (js ''model'') = None"
  by (simp_all add: toy_request_def envelope_json_def js_def)

lemma toy_decrypt:
  "decryptPitchData toy (JStr (t @ replicate 16 0x4B)) (JStr toy_key) (JStr toy_iv) =
     (if length t < 50 then Inl (Error decrypt_failed) else Inr (map ucast (map ucast t :: byte list)))"
  by (simp add: decryptPitchData_def toy_key_def toy_iv_def Let_def MIN_PITCH_LENGTH_def sum_list_replicate)

lemma sample_pitch_length: "length sample_pitch = 80"
  by (simp add: sample_pitch_def js_def)

lemma sample_pitch_bytes:
  "map (ucast \<circ> (ucast :: 16 word \<Rightarrow> byte)) sample_pitch = sample_pitch"
  by (simp add: sample_pitch_def js_def)

lemma sanitize_sample: "sanitizeInput (JStr sample_pitch) = Inr sample_pitch"
  by (simp add: sanitizeInput_def sample_pitch_def js_def remove_all_def trim_def is_space_def
        MAX_PITCH_LENGTH_def Let_def)

lemma modelName_toy [simp]: "modelName_of (toy_request t) = DEFAULT_MODEL"
  by (simp add: modelName_of_def)

lemma analyze_down: "analyzeWithMistral P down_env t = getMockScores P 1700000000123"
  by (simp add: analyzeWithMistral_tiers primary_tier_def down_env_def)


section \<open>The success response and the receipt\<close>

lemma ok_response_fields [simp]:
  "status (ok_response P E m s r) = 200"
  "get_prop (body (ok_response P E m s r)) (js ''scores'') = Some (Scores_json s)"
  "get_prop (body (ok_response P E m s r)) (js ''model'') = Some m"
  "get_prop (body (ok_response P E m s r)) (js ''timestamp'') = Some (JStr (timestamp_of P E))"
  "get_prop (body (ok_response P E m s r)) (js ''receipt'') = Some (JStr r)"
  by (simp_all add: ok_response_def js_def)

lemma sorted_score_keys:
  "sort (map fst (Scores_entries s)) =
     [js ''clarity'', js ''market_fit'', js ''originality'', js ''team_strength'']"
  by (simp add: Scores_entries_def js_def)

lemma stringify_scores:
  "stringify_with_keys P (Scores_entries s) (sort (map fst (Scores_entries s))) =
     canonical_scores P s"
  unfolding sorted_score_keys
  by (simp add: stringify_with_keys_def canonical_scores_def Scores_entries_def
        join_with_def js_def)

lemma generateReceipt_Generate:
  assumes "js_String P c = Inr ct" "js_String P m = Inr mt"
  shows "generateReceipt P c m t s = Inr (Generate P ct mt t s)"
  using assms by (simp add: generateReceipt_def Generate_def stringify_scores Let_def)

lemma generateReceipt_Inr:
  assumes "generateReceipt P c m t s = Inr r"
  shows "\<exists>ct mt. js_String P c = Inr ct \<and> js_String P m = Inr mt \<and> r = Generate P ct mt t s"
  using assms
  by (auto simp: generateReceipt_def Generate_def stringify_scores Let_def split: sum.splits)


lemma respond_renders:
  assumes "js_String P c = Inr ct" "js_String P m = Inr mt"
  shows "respond P E c m s = ok_response P E m s (Generate P ct mt (timestamp_of P E) s)"
  by (simp add: respond_def generateReceipt_Generate [OF assms])

lemma respond_throws:
  assumes "\<not> (renders P c \<and> renders P m)"
  shows "respond P E c m s = error_response 500 ''Internal server error''"
proof (cases "generateReceipt P c m (timestamp_of P E) s")
  case (Inl e)
  then show ?thesis by (simp add: respond_def)
next
  case (Inr r)
  from generateReceipt_Inr [OF this] assms show ?thesis by (auto simp: renders_def)
qed

lemma respond_strings:
  "respond P E (JStr c) (JStr m) s
     = ok_response P E (JStr m) s (Generate P c m (timestamp_of P E) s)"
  by (rule respond_renders) simp_all

lemma respond_default:
  "respond P E (JStr c) DEFAULT_MODEL s
     = ok_response P E DEFAULT_MODEL s
         (Generate P c (js ''mistralai/mistral-small-2409'') (timestamp_of P E) s)"
  unfolding DEFAULT_MODEL_def by (rule respond_strings)

lemma respond_200:
  assumes "status (respond P E c m s) = 200"
  shows "\<exists>r. generateReceipt P c m (timestamp_of P E) s = Inr r
            \<and> respond P E c m s = ok_response P E m s r"
  using assms by (auto simp: respond_def split: sum.splits)

lemma POST_200:
  assumes "status (POST P E rq) = 200"
  shows "\<exists>b c sp r. rq = Some b \<and> get_prop b (js ''ciphertext'') = Some c
           \<and> generateReceipt P c (modelName_of b) (timestamp_of P E)
                 (analyzeWithMistral P E sp) = Inr r
           \<and> POST P E rq = ok_response P E (modelName_of b) (analyzeWithMistral P E sp) r"
proof (cases "structured rq")
  case False
  then show ?thesis using assms by (simp add: POST_unstructured)
next
  case True
  show ?thesis
  proof (cases rq)
    case None
    then show ?thesis using assms by (simp add: POST_malformed)
  next
    case (Some b)
    show ?thesis
    proof (cases "has_fields b")
      case False
      with True Some assms show ?thesis by (simp add: POST_missing)
    next
      case hf: True
      from has_fields_props [OF hf] obtain c k i where
        f: "get_prop b (js ''ciphertext'') = Some c" "get_prop b (js ''aes_key'') = Some k"
           "get_prop b (js ''iv'') = Some i" by blast
      from assms obtain sp where
        "status (respond P E c (modelName_of b) (analyzeWithMistral P E sp)) = 200"
        "POST P E rq = respond P E c (modelName_of b) (analyzeWithMistral P E sp)"
        unfolding Some POST_fields [OF f]
        by (auto split: if_splits sum.splits)
      with respond_200 [of P E c "modelName_of b" "analyzeWithMistral P E sp"] Some f(1)
      show ?thesis by auto
    qed
  qed
qed

lemma analyze_up: "analyzeWithMistral toy up_env t =
   \<lparr>clarity = 17 / 2, originality = 36 / 5, team_strength = 91 / 10, market_fit = 44 / 5\<rparr>"
  by (simp add: analyzeWithMistral_tiers primary_tier_def up_env_def response_ok_def
        reply_content_def js_def trim_def is_space_def sample_scores_json_def
        validate_scores_def requiredKeys_def check_score_def)

lemma POST_sample_up:
  "POST toy up_env (Some (toy_request sample_pitch)) =
     respond toy up_env (JStr (sample_pitch @ replicate 16 0x4B)) DEFAULT_MODEL
       \<lparr>clarity = 17 / 2, originality = 36 / 5, team_strength = 91 / 10, market_fit = 44 / 5\<rparr>"
  by (simp add: POST_fields [OF toy_request_props(1-3)] toy_decrypt sample_pitch_length
        sample_pitch_bytes sanitize_sample analyze_up)

section \<open>The handler against the taxonomy\<close>

lemma stripped_removes: "remove_all 0x27 (remove_all 0x22 (remove_all 0x26
          (remove_all 0x3E (remove_all 0x3C t)))) = stripped t"
  by (induction t) (auto simp: remove_all_def stripped_def dangerous_def)

lemma sanitizeInput_stripped:
  "sanitizeInput (JStr t) =
     Inr (if MAX_PITCH_LENGTH < length (stripped t) then take MAX_PITCH_LENGTH (stripped t)
          else trim (stripped t))"
  by (simp add: sanitizeInput_def stripped_removes Let_def)

lemma sanitizeInput_length:
  "length (if MAX_PITCH_LENGTH < length u then take MAX_PITCH_LENGTH u else trim u)
     \<le> MAX_PITCH_LENGTH"
  using length_trim_le [of u] by auto

lemma decoded_envelope_fields:
  assumes "decoded_envelope P b = Some (cb, kb, ib)"
  obtains c k i where "get_prop b (js ''ciphertext'') = Some c"
    "get_prop b (js ''aes_key'') = Some k" "get_prop b (js ''iv'') = Some i"
    "Buffer_from_base64 P c = Some cb" "Buffer_from_base64 P k = Some kb"
    "Buffer_from_base64 P i = Some ib"
  using assms by (auto simp: decoded_envelope_def split: option.splits)

lemma POST_decoded:
  assumes "decoded_envelope P b = Some (cb, kb, ib)" "length kb = 32" "length ib = 12"
  shows "\<exists>c. get_prop b (js ''ciphertext'') = Some c \<and> POST P E (Some b) =
     (case Decrypt P cb kb ib of
        None \<Rightarrow> error_response 400 decrypt_failed
      | Some plain \<Rightarrow>
          if length (utf8_decode P plain) < MIN_PITCH_LENGTH
          then error_response 400 decrypt_failed
          else respond P E c (modelName_of b)
                 (analyzeWithMistral P E
                    (if MAX_PITCH_LENGTH < length (stripped (utf8_decode P plain))
                     then take MAX_PITCH_LENGTH (stripped (utf8_decode P plain))
                     else trim (stripped (utf8_decode P plain)))))"
proof -
  from decoded_envelope_fields [OF assms(1)] obtain c k i where
    f: "get_prop b (js ''ciphertext'') = Some c"
       "get_prop b (js ''aes_key'') = Some k" "get_prop b (js ''iv'') = Some i" and
    bufs: "Buffer_from_base64 P c = Some cb" "Buffer_from_base64 P k = Some kb"
       "Buffer_from_base64 P i = Some ib" by blast
  have "POST P E (Some b) =
     (case Decrypt P cb kb ib of
        None \<Rightarrow> error_response 400 decrypt_failed
      | Some plain \<Rightarrow>
          if length (utf8_decode P plain) < MIN_PITCH_LENGTH
          then error_response 400 decrypt_failed
          else respond P E c (modelName_of b)
                 (analyzeWithMistral P E
                    (if MAX_PITCH_LENGTH < length (stripped (utf8_decode P plain))
                     then take MAX_PITCH_LENGTH (stripped (utf8_decode P plain))
                     else trim (stripped (utf8_decode P plain)))))"
    unfolding POST_fields [OF f] decryptPitchData_parts [OF bufs]
    using bufs assms(2,3) by (simp add: sanitizeInput_stripped split: option.splits)
  with f(1) show ?thesis by blast
qed

lemma respond_status:
  "status (respond P E c m s) = (if renders P c \<and> renders P m then 200 else 500)"
proof (cases "renders P c \<and> renders P m")
  case True
  then obtain ct mt where "js_String P c = Inr ct" "js_String P m = Inr mt"
    by (auto simp: renders_def split: sum.splits)
  from respond_renders [OF this] True show ?thesis by simp
next
  case False
  from respond_throws [OF this] False show ?thesis by simp
qed

lemma classify_cases:
  "POST P E rq =
     (if classify P rq = Accepted then POST P E rq
      else error_response (verdict_status (classify P rq)) (verdict_message (classify P rq)))
   \<and> status (POST P E rq) = verdict_status (classify P rq)"
proof (cases rq)
  case None
  then show ?thesis by (simp add: classify_def POST_malformed)
next
  case (Some b)
  show ?thesis
  proof (cases "structured (Some b)")
    case False
    with Some show ?thesis by (simp add: classify_def POST_unstructured)
  next
    case st: True
    show ?thesis
    proof (cases "has_fields b")
      case False
      with st Some show ?thesis by (simp add: classify_def POST_missing)
    next
      case hf: True
      from has_fields_props [OF hf] obtain c k i where
        f: "get_prop b (js ''ciphertext'') = Some c" "get_prop b (js ''aes_key'') = Some k"
           "get_prop b (js ''iv'') = Some i" by blast
      show ?thesis
      proof (cases "decoded_envelope P b")
        case None
        with f have "Buffer_from_base64 P c = None \<or> Buffer_from_base64 P k = None
                     \<or> Buffer_from_base64 P i = None"
          by (auto simp: decoded_envelope_def split: option.splits)
        then show ?thesis
          unfolding Some POST_fields [OF f] using hf st None by (simp add: classify_def)
      next
        case (Some t)
        then obtain cb kb ib where t: "t = (cb, kb, ib)" by (cases t) auto
        from Some f have bufs: "Buffer_from_base64 P c = Some cb"
          "Buffer_from_base64 P k = Some kb" "Buffer_from_base64 P i = Some ib"
          unfolding t by (auto simp: decoded_envelope_def split: option.splits)
        have rr: "receipt_renders P b \<longleftrightarrow> renders P c \<and> renders P (modelName_of b)"
          using f(1) by (simp add: receipt_renders_def)
        show ?thesis
          unfolding \<open>rq = Some b\<close> POST_fields [OF f] decryptPitchData_parts [OF bufs]
          using hf st Some bufs
          by (simp add: classify_def t sanitizeInput_stripped decrypt_failed_def rr
                respond_status respond_throws split: option.splits)
      qed
    qed
  qed
qed

lemma decoded_toy_request:
  "decoded_envelope toy (toy_request t) =
     Some (map ucast t @ replicate 16 0x4B, replicate 32 0x4B, replicate 12 0)"
  by (simp add: decoded_envelope_def toy_key_def toy_iv_def)

lemma Decrypt_toy_request:
  "Decrypt toy (map ucast t @ replicate 16 0x4B) (replicate 32 0x4B) (replicate 12 0)
     = Some (map ucast t)"
  by (simp add: Decrypt_def sum_list_replicate)

lemma decoded_tampered_request:
  "decoded_envelope toy (tampered_request t) =
     Some (map ucast t @ replicate 16 0x58, replicate 32 0x4B, replicate 12 0)"
  by (simp add: decoded_envelope_def tampered_request_def envelope_json_def toy_key_def
        toy_iv_def js_def)

lemma Decrypt_tampered_request:
  "Decrypt toy (map ucast t @ replicate 16 0x58) (replicate 32 0x4B) (replicate 12 0) = None"
  by (simp add: Decrypt_def)





lemma stripped_replicate:
  "stripped (replicate n x) = (if x \<in> dangerous then [] else replicate n x)"
  by (simp add: stripped_def filter_replicate)

lemma POST_toy_request_down:
  "POST toy down_env (Some (toy_request t)) =
     (if length t < 50 then error_response 400 decrypt_failed
      else respond toy down_env (JStr (t @ replicate 16 0x4B)) DEFAULT_MODEL
             (getMockScores toy 1700000000123))"
  by (simp add: POST_fields [OF toy_request_props(1-3)] toy_decrypt sanitizeInput_stripped
        analyze_down)


lemma Scores_json_inject: "Scores_json s = Scores_json s' \<Longrightarrow> s = s'"
  by (cases s; cases s') (simp add: Scores_json_def Scores_entries_def)

lemma POST_shape:
  "(\<exists>st msg. (st, msg) \<in> set generic_errors \<and> POST P E rq = error_response st msg)
   \<or> (\<exists>b c s r. rq = Some b \<and> get_prop b (js ''ciphertext'') = Some c
          \<and> generateReceipt P c (modelName_of b) (timestamp_of P E) s = Inr r
          \<and> POST P E rq = ok_response P E (modelName_of b) s r)"
proof (cases "classify P rq = Accepted")
  case False
  with classify_cases [of P E rq]
  have r: "POST P E rq
             = error_response (verdict_status (classify P rq)) (verdict_message (classify P rq))"
    by simp
  have "(verdict_status (classify P rq), verdict_message (classify P rq)) \<in> set generic_errors"
    using False by (cases "classify P rq") (simp_all add: generic_errors_def)
  with r show ?thesis by metis
next
  case True
  with classify_cases [of P E rq] have "status (POST P E rq) = 200" by simp
  from POST_200 [OF this] show ?thesis by blast
qed

lemma modelName_of_cong:
  "get_prop b (js ''model'') = get_prop b' (js ''model'') \<Longrightarrow> modelName_of b = modelName_of b'"
  by (simp add: modelName_of_def)

lemma toy_request2_props:
  "get_prop (toy_request2 t) (js ''ciphertext'') = Some (JStr (t @ replicate 16 0x4B))"
  "get_prop (toy_request2 t) (js ''aes_key'') = Some (JStr toy_key2)"
  "get_prop (toy_request2 t) (js ''iv'') = Some (JStr toy_iv2)"
  "get_prop (toy_request2 t) (js ''model'') = None"
  by (simp_all add: toy_request2_def envelope_json_def js_def)

lemma toy_decrypt2:
  "decryptPitchData toy (JStr (t @ replicate 16 0x4B)) (JStr toy_key2) (JStr toy_iv2) =
     (if length t < 50 then Inl (Error decrypt_failed)
      else Inr (map (\<lambda>x. ucast ((ucast x :: byte) - 1)) t))"
  by (simp add: decryptPitchData_def toy_key2_def toy_iv2_def Let_def MIN_PITCH_LENGTH_def
        sum_list_replicate comp_def)

lemma POST_toy_request2_down:
  "POST toy down_env (Some (toy_request2 t)) =
     (if length t < 50 then error_response 400 decrypt_failed
      else respond toy down_env (JStr (t @ replicate 16 0x4B)) DEFAULT_MODEL
             (getMockScores toy 1700000000123))"
  by (simp add: POST_fields [OF toy_request2_props(1-3)] toy_decrypt2 sanitizeInput_stripped
        analyze_down modelName_of_def toy_request2_props(4))

section \<open>The UTF-8 codec on well-formed strings\<close>

lemma byte_nat: "k < 256 \<Longrightarrow> unat (of_nat k :: byte) = k"
  by (simp only: unat_of_nat) simp

lemma dec1_bytes:
  assumes "unat b = n" "n < 0x80"
  shows "utf8_decode_std (b # bs) = of_nat n # utf8_decode_std bs"
proof -
  have "b < 0x80" using assms by (simp add: word_less_nat_alt)
  moreover have "ucast b = (of_nat n :: 16 word)" using assms(1) [symmetric] by simp
  ultimately show ?thesis by simp
qed

lemma dec2_bytes:
  assumes "unat b = 0xC0 + h" "2 \<le> h" "h \<le> 31" "unat c1 = 0x80 + l" "l < 64"
  shows "utf8_decode_std (b # c1 # bs) = of_nat (h * 64 + l) # utf8_decode_std bs"
  using assms by (simp add: is_cont_def word_less_nat_alt word_le_nat_alt)

lemma dec3_bytes:
  assumes "unat b = 0xE0 + h" "h \<le> 15" "unat c1 = 0x80 + m" "m < 64" "unat c2 = 0x80 + l" "l < 64"
    and "0x800 \<le> h * 4096 + m * 64 + l" "\<not> (0xD800 \<le> h * 4096 + m * 64 + l \<and> h * 4096 + m * 64 + l \<le> 0xDFFF)"
  shows "utf8_decode_std (b # c1 # c2 # bs) = of_nat (h * 4096 + m * 64 + l) # utf8_decode_std bs"
  using assms by (simp add: is_cont_def word_less_nat_alt word_le_nat_alt)

lemma dec4_bytes:
  assumes "unat b = 0xF0 + h" "h \<le> 4" "unat c1 = 0x80 + m" "m < 64" "unat c2 = 0x80 + l" "l < 64"
    "unat c3 = 0x80 + k" "k < 64"
    and "0x10000 \<le> h * 262144 + m * 4096 + l * 64 + k" "h * 262144 + m * 4096 + l * 64 + k \<le> 0x10FFFF"
  shows "utf8_decode_std (b # c1 # c2 # c3 # bs) =
     of_nat (0xD800 + (h * 262144 + m * 4096 + l * 64 + k - 0x10000) div 1024)
     # of_nat (0xDC00 + (h * 262144 + m * 4096 + l * 64 + k - 0x10000) mod 1024)
     # utf8_decode_std bs"
  using assms by (simp add: is_cont_def word_less_nat_alt word_le_nat_alt)

lemma split3: "n div 4096 * 4096 + n div 64 mod 64 * 64 + n mod 64 = (n::nat)"
proof -
  have c: "\<And>a b c :: nat. a * 4096 + b * 64 + c = (a * 64 + b) * 64 + c" by simp
  have 1: "n div 4096 = n div 64 div 64" by (simp add: div_mult2_eq [symmetric])
  show ?thesis unfolding 1 c by simp
qed

lemma split4:
  "n div 262144 * 262144 + n div 4096 mod 64 * 4096 + n div 64 mod 64 * 64 + n mod 64 = (n::nat)"
proof -
  have c: "\<And>a b c :: nat. a * 262144 + b * 4096 + c = (a * 64 + b) * 4096 + c" by simp
  have 1: "n div 262144 = n div 4096 div 64" by (simp add: div_mult2_eq [symmetric])
  have "n div 262144 * 262144 + n div 4096 mod 64 * 4096 + (n div 64 mod 64 * 64 + n mod 64)
        = n div 4096 * 4096 + (n div 64 mod 64 * 64 + n mod 64)"
    unfolding 1 c by simp
  then show ?thesis using split3 [of n] by simp
qed

lemma dec_enc1_bmp:
  assumes "n < 0x10000" "\<not> (0xD800 \<le> n \<and> n \<le> 0xDFFF)"
  shows "utf8_decode_std (enc1 n @ bs) = of_nat n # utf8_decode_std bs"
proof -
  consider "n < 0x80" | "0x80 \<le> n" "n < 0x800" | "0x800 \<le> n" by linarith
  then show ?thesis
  proof cases
    case 1
    have "unat (of_nat n :: byte) = n" using 1 by (intro byte_nat) simp
    from dec1_bytes [OF this 1] 1 show ?thesis by (simp add: enc1_def)
  next
    case 2
    have b: "unat (of_nat (0xC0 + n div 64) :: byte) = 0xC0 + n div 64"
      using 2 by (intro byte_nat) simp
    have c: "unat (of_nat (0x80 + n mod 64) :: byte) = 0x80 + n mod 64"
      by (intro byte_nat) simp
    have h: "2 \<le> n div 64" "n div 64 \<le> 31" using 2 by simp_all
    have "utf8_decode_std (of_nat (0xC0 + n div 64) # of_nat (0x80 + n mod 64) # bs)
            = of_nat (n div 64 * 64 + n mod 64) # utf8_decode_std bs"
      by (rule dec2_bytes [OF b h c]) simp
    with 2 show ?thesis by (simp add: enc1_def)
  next
    case 3
    have b: "unat (of_nat (0xE0 + n div 4096) :: byte) = 0xE0 + n div 4096"
      using assms by (intro byte_nat) simp
    have c: "unat (of_nat (0x80 + n div 64 mod 64) :: byte) = 0x80 + n div 64 mod 64"
      by (intro byte_nat) simp
    have d: "unat (of_nat (0x80 + n mod 64) :: byte) = 0x80 + n mod 64"
      by (intro byte_nat) simp
    have h: "n div 4096 \<le> 15" using assms by simp
    have e: "n div 4096 * 4096 + n div 64 mod 64 * 64 + n mod 64 = n" by (rule split3)
    have "utf8_decode_std (of_nat (0xE0 + n div 4096) # of_nat (0x80 + n div 64 mod 64)
              # of_nat (0x80 + n mod 64) # bs)
            = of_nat (n div 4096 * 4096 + n div 64 mod 64 * 64 + n mod 64) # utf8_decode_std bs"
      by (rule dec3_bytes [OF b h c _ d]) (use 3 assms e in simp_all)
    with 3 assms show ?thesis by (simp add: enc1_def e)
  qed
qed

lemma dec_enc1_astral:
  assumes "0x10000 \<le> n" "n \<le> 0x10FFFF"
  shows "utf8_decode_std (enc1 n @ bs) =
           of_nat (0xD800 + (n - 0x10000) div 1024) # of_nat (0xDC00 + (n - 0x10000) mod 1024)
             # utf8_decode_std bs"
proof -
  have b: "unat (of_nat (0xF0 + n div 262144) :: byte) = 0xF0 + n div 262144"
    using assms by (intro byte_nat) simp
  have c: "unat (of_nat (0x80 + n div 4096 mod 64) :: byte) = 0x80 + n div 4096 mod 64"
    by (intro byte_nat) simp
  have d: "unat (of_nat (0x80 + n div 64 mod 64) :: byte) = 0x80 + n div 64 mod 64"
    by (intro byte_nat) simp
  have f: "unat (of_nat (0x80 + n mod 64) :: byte) = 0x80 + n mod 64"
    by (intro byte_nat) simp
  have h: "n div 262144 \<le> 4" using assms by simp
  have e: "n div 262144 * 262144 + n div 4096 mod 64 * 4096 + n div 64 mod 64 * 64 + n mod 64 = n"
    by (rule split4)
  have "utf8_decode_std (of_nat (0xF0 + n div 262144) # of_nat (0x80 + n div 4096 mod 64)
            # of_nat (0x80 + n div 64 mod 64) # of_nat (0x80 + n mod 64) # bs)
          = of_nat (0xD800 + (n div 262144 * 262144 + n div 4096 mod 64 * 4096
                       + n div 64 mod 64 * 64 + n mod 64 - 0x10000) div 1024)
            # of_nat (0xDC00 + (n div 262144 * 262144 + n div 4096 mod 64 * 4096
                       + n div 64 mod 64 * 64 + n mod 64 - 0x10000) mod 1024)
            # utf8_decode_std bs"
    by (rule dec4_bytes [OF b h c _ d _ f]) (use assms e in simp_all)
  with assms show ?thesis unfolding e by (simp add: enc1_def)
qed

lemma dec_enc_unit:
  assumes "\<not> is_high u" "\<not> is_low u"
  shows "utf8_decode_std (enc1 (unat u) @ bs) = u # utf8_decode_std bs"
proof -
  have "unat u < 2 ^ LENGTH(16)" by (rule unsigned_less)
  then have 1: "unat u < 0x10000" by simp
  have 2: "\<not> (0xD800 \<le> unat u \<and> unat u \<le> 0xDFFF)"
    using assms by (auto simp: is_high_def is_low_def word_le_nat_alt)
  from dec_enc1_bmp [OF 1 2, of bs] show ?thesis by simp
qed

lemma dec_enc_pair:
  assumes "is_high u" "is_low v"
  shows "utf8_decode_std (enc1 (0x10000 + (unat u - 0xD800) * 1024 + (unat v - 0xDC00)) @ bs)
           = u # v # utf8_decode_std bs"
proof -
  define h where "h = unat u - 0xD800"
  define l where "l = unat v - 0xDC00"
  have u: "unat u = 0xD800 + h" and h: "h < 1024"
    using assms(1) by (auto simp: h_def is_high_def word_le_nat_alt)
  have v: "unat v = 0xDC00 + l" and l: "l < 1024"
    using assms(2) by (auto simp: l_def is_low_def word_le_nat_alt)
  have lo: "0x10000 \<le> 0x10000 + h * 1024 + l" by simp
  have hi: "0x10000 + h * 1024 + l \<le> 0x10FFFF" using h l by simp
  have d: "(0x10000 + h * 1024 + l - 0x10000) div 1024 = h" using l by simp
  have m: "(0x10000 + h * 1024 + l - 0x10000) mod 1024 = l" using l by simp
  have "of_nat (0xD800 + h) = u" using u [symmetric] by simp
  moreover have "of_nat (0xDC00 + l) = v" using v [symmetric] by simp
  ultimately show ?thesis
    using dec_enc1_astral [OF lo hi, of bs] unfolding d m h_def [symmetric] l_def [symmetric]
    by simp
qed

lemma utf8_roundtrip_well_formed: "well_formed us \<Longrightarrow> utf8_decode_std (utf8_encode us) = us"
proof (induction us rule: utf8_encode.induct)
  case 1
  then show ?case by simp
next
  case (2 u)
  then show ?case using dec_enc_unit [of u "[]"] by simp
next
  case (3 u v us)
  show ?case
  proof (cases "is_high u")
    case True
    with 3 show ?thesis using dec_enc_pair [of u v "utf8_encode us"] by simp
  next
    case False
    with 3 show ?thesis using dec_enc_unit [of u "utf8_encode (v # us)"] by simp
  qed
qed

lemma toy_utf8_simps [simp]:
  "btoa toy_utf8 = (\<lambda>s. s)"
  "Buffer_from_base64 toy_utf8
     = (\<lambda>v. case v of JStr s \<Rightarrow> Some (map ucast s) | _ \<Rightarrow> None)"
  "subtle_encrypt toy_utf8 = (\<lambda>k i m. map (\<lambda>x. x + sum_list i) m @ take 16 k)"
  "decipher toy_utf8
     = (\<lambda>k i t c. if t = take 16 k then Some (map (\<lambda>x. x - sum_list i) c) else None)"
  "TextEncoder_encode toy_utf8 = utf8_encode"
  "utf8_decode toy_utf8 = utf8_decode_std"
  by (simp_all add: toy_utf8_def toy_def)

lemma toy_utf8_roundtrip: "utf8_roundtrip toy_utf8"
  by (simp add: utf8_roundtrip_def utf8_roundtrip_well_formed)

section \<open>The round trip\<close>

lemma byte_via_code_unit: "ucast (ucast (x :: byte) :: 16 word) = x"
  by (rule ucast_up_ucast_id) (simp add: is_up)

lemma decrypt_encrypt:
  assumes "base64_roundtrip P" "aes_gcm_correct P" and "length k = 32" "length i = 12"
  shows "decryptPitchData P (JStr (encryptedData (encryptPitch P k i p)))
           (JStr (key (encryptPitch P k i p))) (JStr (iv (encryptPitch P k i p)))
         = (if length (utf8_decode P (TextEncoder_encode P p)) < MIN_PITCH_LENGTH
            then Inl (Error decrypt_failed)
            else Inr (utf8_decode P (TextEncoder_encode P p)))"
proof -
  let ?data = "TextEncoder_encode P p"
  from assms(2-4) obtain c t where
    enc: "subtle_encrypt P k i ?data = c @ t" and t: "length t = 16" and
    dec: "decipher P k i t c = Some ?data"
    unfolding aes_gcm_correct_def by blast
  have b64: "\<And>bs. Buffer_from_base64 P (JStr (arrayBufferToBase64 P bs)) = Some bs"
    using assms(1) by (simp add: base64_roundtrip_def arrayBufferToBase64_def)
  have parts: "drop (length (c @ t) - 16) (c @ t) = t" "take (length (c @ t) - 16) (c @ t) = c"
    using t by simp_all
  have D: "Decrypt P (c @ t) k i = Some ?data"
    unfolding Decrypt_def parts by (rule dec)
  have e: "encryptedData (encryptPitch P k i p) = arrayBufferToBase64 P (c @ t)"
    "key (encryptPitch P k i p) = arrayBufferToBase64 P k"
    "iv (encryptPitch P k i p) = arrayBufferToBase64 P i"
    by (simp_all add: encryptPitch_def Let_def enc)
  show ?thesis
    unfolding e decryptPitchData_parts [OF b64 b64 b64] D
    using assms(3,4) by simp
qed

lemma toy_utf8_base64_roundtrip: "base64_roundtrip toy_utf8"
  by (simp add: base64_roundtrip_def comp_def byte_via_code_unit)

lemma toy_utf8_aes_gcm_correct: "aes_gcm_correct toy_utf8"
  by (simp add: aes_gcm_correct_def comp_def)

lemma well_formed_astral_pitch: "well_formed astral_pitch"
  by (simp add: astral_pitch_def js_def is_high_def is_low_def)

lemma length_astral_pitch: "length astral_pitch = 84"
  by (simp add: astral_pitch_def js_def)

lemma length_lone_surrogate_pitch: "length lone_surrogate_pitch = 50"
  by (simp add: lone_surrogate_pitch_def js_def)

lemma codec_lone_surrogate_pitch:
  "utf8_decode_std (utf8_encode lone_surrogate_pitch)
     = js ''A pitch of fifty code units with a lone surrogate'' @ [0xFFFD]"
  by (simp add: lone_surrogate_pitch_def js_def is_high_def is_low_def enc1_def is_cont_def)







lemma analyze_probe:
  "analyzeWithMistral toy probe_env t =
     (if t = []
      then \<lparr>clarity = 17 / 2, originality = 36 / 5, team_strength = 91 / 10, market_fit = 44 / 5\<rparr>
      else getMockScores toy 1700000000123)"
  by (simp add: analyzeWithMistral_tiers primary_tier_def probe_env_def response_ok_def
        reply_content_def js_def trim_def is_space_def sample_scores_json_def
        validate_scores_def requiredKeys_def check_score_def)

lemma POST_toy_request_probe:
  "POST toy probe_env (Some (toy_request (replicate 50 0x3C))) =
     respond toy probe_env (JStr (replicate 50 0x3C @ replicate 16 0x4B)) DEFAULT_MODEL
       \<lparr>clarity = 17 / 2, originality = 36 / 5, team_strength = 91 / 10, market_fit = 44 / 5\<rparr>"
  by (simp add: POST_fields [OF toy_request_props(1-3)] toy_decrypt sanitizeInput_stripped
        stripped_replicate dangerous_def trim_def analyze_probe MAX_PITCH_LENGTH_def)

lemma sample_scores_json_eq:
  "Scores_json \<lparr>clarity = 17 / 2, originality = 36 / 5, team_strength = 91 / 10,
                 market_fit = 44 / 5\<rparr> = sample_scores_json"
  by (simp add: Scores_json_def Scores_entries_def sample_scores_json_def)

section \<open>The claims\<close>






text \<open>
  C3. Amended: with a fresh 32-byte key and 12-byte IV, decrypting the envelope that
  \<open>encryptPitch\<close> produces for a well-formed plaintext of 50 to 10000 code units
  returns that plaintext, given the laws of the primitives: base64 decoding inverts the
  encoding, AES-GCM appends a 16-byte tag under which decryption returns the data, and
  the UTF-8 codec returns every well-formed string it encoded. A plaintext with a
  surrogate that is not half of a pair does not come back.
\<close>

theorem decrypt_encrypt_roundtrip:
  assumes "base64_roundtrip P" "aes_gcm_correct P" "utf8_roundtrip P"
      and "well_formed p"
      and "length k = 32" "length i = 12"
      and "50 \<le> length p" "length p \<le> 10000"
  shows "decryptPitchData P (JStr (encryptedData (encryptPitch P k i p)))
           (JStr (key (encryptPitch P k i p))) (JStr (iv (encryptPitch P k i p))) = Inr p"
proof -
  from assms(3,4) have "utf8_decode P (TextEncoder_encode P p) = p"
    by (simp add: utf8_roundtrip_def)
  with assms(7) show ?thesis
    unfolding decrypt_encrypt [OF assms(1,2,5,6)] by (simp add: MIN_PITCH_LENGTH_def)
qed

theorem decrypt_encrypt_roundtrip_witness:
  "base64_roundtrip toy_utf8 \<and> aes_gcm_correct toy_utf8 \<and> utf8_roundtrip toy_utf8
   \<and> well_formed astral_pitch \<and> length astral_pitch = 84
   \<and> decryptPitchData toy_utf8
        (JStr (encryptedData (encryptPitch toy_utf8 (replicate 32 0x4B) (replicate 11 0 @ [1])
                                astral_pitch)))
        (JStr (key (encryptPitch toy_utf8 (replicate 32 0x4B) (replicate 11 0 @ [1])
                      astral_pitch)))
        (JStr (iv (encryptPitch toy_utf8 (replicate 32 0x4B) (replicate 11 0 @ [1])
                     astral_pitch)))
       = Inr astral_pitch"
proof -
  have k: "length (replicate 32 (0x4B :: byte)) = 32" by simp
  have i: "length (replicate 11 0 @ [1 :: byte]) = 12" by simp
  have lo: "50 \<le> length astral_pitch" and hi: "length astral_pitch \<le> 10000"
    by (simp_all add: length_astral_pitch)
  from decrypt_encrypt_roundtrip
         [OF toy_utf8_base64_roundtrip toy_utf8_aes_gcm_correct toy_utf8_roundtrip
             well_formed_astral_pitch k i lo hi]
    toy_utf8_base64_roundtrip toy_utf8_aes_gcm_correct toy_utf8_roundtrip
    well_formed_astral_pitch length_astral_pitch
  show ?thesis by blast
qed

theorem lone_surrogate_breaks_roundtrip:
  "length lone_surrogate_pitch = 50
   \<and> decryptPitchData toy_utf8
        (JStr (encryptedData (encryptPitch toy_utf8 (replicate 32 0x4B) (replicate 12 0)
                                lone_surrogate_pitch)))
        (JStr (key (encryptPitch toy_utf8 (replicate 32 0x4B) (replicate 12 0)
                      lone_surrogate_pitch)))
        (JStr (iv (encryptPitch toy_utf8 (replicate 32 0x4B) (replicate 12 0)
                     lone_surrogate_pitch)))
       = Inr (js ''A pitch of fifty code units with a lone surrogate'' @ [0xFFFD])
   \<and> js ''A pitch of fifty code units with a lone surrogate'' @ [0xFFFD]
       \<noteq> lone_surrogate_pitch"
proof -
  have k: "length (replicate 32 (0x4B :: byte)) = 32" by simp
  have i: "length (replicate 12 (0 :: byte)) = 12" by simp
  have ne: "js ''A pitch of fifty code units with a lone surrogate'' @ [0xFFFD]
              \<noteq> lone_surrogate_pitch"
    by (simp add: lone_surrogate_pitch_def)
  have len: "length (js ''A pitch of fifty code units with a lone surrogate'' @ [0xFFFD :: 16 word])
               = 50"
    by (simp add: js_def)
  show ?thesis
    unfolding decrypt_encrypt [OF toy_utf8_base64_roundtrip toy_utf8_aes_gcm_correct k i]
    using ne len
    by (simp add: codec_lone_surrogate_pitch length_lone_surrogate_pitch MIN_PITCH_LENGTH_def)
qed

text \<open>
  C4. In every response with status 200 the four score fields are numbers between 0
  and 10, whether the upstream model or the mock scorer produced them.
\<close>

theorem POST_scores_in_range:
  assumes "status (POST P E rq) = 200"
  shows "\<exists>s. get_prop (body (POST P E rq)) (js ''scores'') = Some (Scores_json s)
             \<and> valid_scores s"
proof -
  from POST_200 [OF assms] obtain b sp r where
    "POST P E rq = ok_response P E (modelName_of b) (analyzeWithMistral P E sp) r" by blast
  then show ?thesis using analyzeWithMistral_valid [of P E sp] by auto
qed

theorem POST_scores_in_range_witness:
  "status (POST toy up_env (Some (toy_request sample_pitch))) = 200
   \<and> (\<exists>s. get_prop (body (POST toy up_env (Some (toy_request sample_pitch)))) (js ''scores'')
             = Some (Scores_json s) \<and> valid_scores s)"
proof -
  have h: "status (POST toy up_env (Some (toy_request sample_pitch))) = 200"
    by (simp add: POST_sample_up respond_default)
  from POST_scores_in_range [OF h] h show ?thesis by simp
qed




text \<open>
  C6. Amended: the text handed to the scorer has at most 10000 characters after
  sanitization and may have fewer than 50, even none. Decrypted content of fewer than
  50 characters, counted before sanitization, is rejected with status 400; otherwise
  the scorer gets the content without the five removed characters, cut to its first
  10000 characters when it is longer and trimmed when it is not, and the handler
  answers with what it builds from the scores: the success response, or status 500
  when building the receipt throws.
\<close>

theorem scoring_input_bounds:
  assumes "decoded_envelope P b = Some (cb, kb, ib)" "length kb = 32" "length ib = 12"
      and "Decrypt P cb kb ib = Some plain"
  shows "if length (utf8_decode P plain) < 50
         then POST P E (Some b) = error_response 400 ''Failed to decrypt pitch data''
         else (\<exists>c s. get_prop b (js ''ciphertext'') = Some c
                \<and> s = (if 10000 < length (stripped (utf8_decode P plain))
                       then take 10000 (stripped (utf8_decode P plain))
                       else trim (stripped (utf8_decode P plain)))
                \<and> length s \<le> 10000
                \<and> POST P E (Some b)
                    = respond P E c (modelName_of b) (analyzeWithMistral P E s))"
proof -
  from POST_decoded [OF assms(1-3), of E] assms(4) obtain c where
    c: "get_prop b (js ''ciphertext'') = Some c" and
    r: "POST P E (Some b) =
          (if length (utf8_decode P plain) < MIN_PITCH_LENGTH
           then error_response 400 decrypt_failed
           else respond P E c (modelName_of b)
                  (analyzeWithMistral P E
                     (if MAX_PITCH_LENGTH < length (stripped (utf8_decode P plain))
                      then take MAX_PITCH_LENGTH (stripped (utf8_decode P plain))
                      else trim (stripped (utf8_decode P plain)))))"
    by auto
  show ?thesis
  proof (cases "length (utf8_decode P plain) < 50")
    case True
    with r show ?thesis by (simp add: MIN_PITCH_LENGTH_def decrypt_failed_def)
  next
    case False
    let ?u = "stripped (utf8_decode P plain)"
    let ?s = "if 10000 < length ?u then take 10000 ?u else trim ?u"
    have len: "length ?s \<le> 10000"
      using sanitizeInput_length [of ?u] unfolding MAX_PITCH_LENGTH_def
      by (simp split: if_splits)
    from False r have "POST P E (Some b)
        = respond P E c (modelName_of b) (analyzeWithMistral P E ?s)"
      by (simp add: MIN_PITCH_LENGTH_def MAX_PITCH_LENGTH_def)
    with c len False show ?thesis by auto
  qed
qed

theorem scoring_input_bounds_witness:
  "POST toy down_env (Some (toy_request (replicate 10001 0x41)))
     = respond toy down_env (JStr (replicate 10001 0x41 @ replicate 16 0x4B))
         (modelName_of (toy_request (replicate 10001 0x41)))
         (analyzeWithMistral toy down_env (replicate 10000 0x41))
   \<and> status (POST toy down_env (Some (toy_request (replicate 10001 0x41)))) = 200"
proof -
  have d: "Decrypt toy (map ucast (replicate 10001 (0x41 :: 16 word)) @ replicate 16 0x4B)
             (replicate 32 0x4B) (replicate 12 0)
           = Some (map ucast (replicate 10001 (0x41 :: 16 word)))"
    by (rule Decrypt_toy_request)
  have k: "length (replicate 32 (0x4B :: byte)) = 32" and i: "length (replicate 12 (0 :: byte)) = 12"
    by simp_all
  have s: "status (POST toy down_env (Some (toy_request (replicate 10001 0x41)))) = 200"
    by (simp add: POST_toy_request_down respond_default)
  from scoring_input_bounds [OF decoded_toy_request k i d, of down_env] s
  show ?thesis by (simp add: stripped_replicate dangerous_def)
qed

theorem sanitized_text_can_be_empty:
  "decryptPitchData toy (JStr (replicate 50 0x3C @ replicate 16 0x4B)) (JStr toy_key)
     (JStr toy_iv) = Inr (replicate 50 0x3C)
   \<and> sanitizeInput (JStr (replicate 50 0x3C)) = Inr []
   \<and> status (POST toy probe_env (Some (toy_request (replicate 50 0x3C)))) = 200
   \<and> get_prop (body (POST toy probe_env (Some (toy_request (replicate 50 0x3C)))))
        (js ''scores'') = Some sample_scores_json"
  by (simp add: toy_decrypt POST_toy_request_probe respond_default sanitizeInput_stripped
        stripped_replicate dangerous_def trim_def MAX_PITCH_LENGTH_def sample_scores_json_eq)

text \<open>
  C7. The sanitizer is a function of its input string alone, and for every input
  string its output contains no angle bracket, no double or single quote and no
  ampersand.
\<close>

theorem sanitizeInput_strips_dangerous:
  "\<exists>s. sanitizeInput (JStr t) = Inr s \<and> set s \<inter> dangerous = {}"
proof -
  let ?st = "remove_all 0x27 (remove_all 0x22 (remove_all 0x26
               (remove_all 0x3E (remove_all 0x3C t))))"
  have clean: "set ?st \<inter> dangerous = {}"
    unfolding set_stripped by blast
  show ?thesis
  proof (cases "length ?st > MAX_PITCH_LENGTH")
    case True
    have "set (take MAX_PITCH_LENGTH ?st) \<subseteq> set ?st" by (rule set_take_subset)
    with clean have "set (take MAX_PITCH_LENGTH ?st) \<inter> dangerous = {}" by blast
    with True show ?thesis by (simp add: sanitizeInput_def Let_def)
  next
    case False
    from clean set_trim_subset [of ?st] have "set (trim ?st) \<inter> dangerous = {}" by blast
    with False show ?thesis by (simp add: sanitizeInput_def Let_def)
  qed
qed

theorem sanitizeInput_strips_dangerous_witness:
  \<open>sanitizeInput (JStr (js '' <b>Tom & "Jerry's"</b> '')) = Inr (js ''bTom  Jerrys/b'')
   \<and> (\<exists>s. sanitizeInput (JStr (js '' <b>Tom & "Jerry's"</b> '')) = Inr s \<and> set s \<inter> dangerous = {})\<close>
  using sanitizeInput_strips_dangerous [of \<open>js '' <b>Tom & "Jerry's"</b> ''\<close>]
  by (simp add: sanitizeInput_def js_def remove_all_def trim_def is_space_def
        MAX_PITCH_LENGTH_def Let_def)

text \<open>
  C8. The mock scorer has no failing branch: it returns a score set for every clock
  reading. Two readings in the same hour bucket give the same score set, and every
  score set it returns is valid.
\<close>

theorem getMockScores_deterministic_and_valid:
  assumes "t1 div 3600000 = t2 div 3600000"
  shows "getMockScores P t1 = getMockScores P t2 \<and> valid_scores (getMockScores P t1)"
proof
  show "getMockScores P t1 = getMockScores P t2"
    unfolding getMockScores_def assms ..
  show "valid_scores (getMockScores P t1)"
    by (rule getMockScores_valid)
qed

theorem getMockScores_deterministic_and_valid_witness:
  "(1700000000123::int) div 3600000 = 1700002799999 div 3600000
   \<and> getMockScores toy 1700000000123 = getMockScores toy 1700002799999
   \<and> valid_scores (getMockScores toy 1700000000123)"
proof -
  have h: "(1700000000123::int) div 3600000 = 1700002799999 div 3600000" by simp
  from getMockScores_deterministic_and_valid [OF h, of toy] h show ?thesis by blast
qed

text \<open>
  C9. Every response is either one of the five fixed error responses, or the success
  response, whose body has exactly the fields \<open>scores\<close>, \<open>receipt\<close>, \<open>timestamp\<close>
  and \<open>model\<close>, built from the request's \<open>ciphertext\<close> and \<open>model\<close> fields, the
  clock and the scores, the receipt being the one of those four. Nothing in it comes
  from the key, the IV or the decrypted text: two successful requests that agree on
  \<open>ciphertext\<close> and \<open>model\<close> and get the same scores get the same response,
  whatever their keys and IVs.
\<close>

theorem response_reveals_no_secret:
  assumes "get_prop b (js ''ciphertext'') = get_prop b' (js ''ciphertext'')"
      and "get_prop b (js ''model'') = get_prop b' (js ''model'')"
      and "status (POST P E (Some b)) = 200" and "status (POST P E (Some b')) = 200"
      and "get_prop (body (POST P E (Some b))) (js ''scores'')
           = get_prop (body (POST P E (Some b'))) (js ''scores'')"
  shows "POST P E (Some b) = POST P E (Some b')
       \<and> ((\<exists>st msg. (st, msg) \<in> set generic_errors \<and> POST P E rq = error_response st msg)
          \<or> (\<exists>b0 c s r. rq = Some b0 \<and> get_prop b0 (js ''ciphertext'') = Some c
                 \<and> generateReceipt P c (modelName_of b0) (timestamp_of P E) s = Inr r
                 \<and> POST P E rq = ok_response P E (modelName_of b0) s r))"
proof
  from POST_200 [OF assms(3)] obtain c sp r where
    c: "get_prop b (js ''ciphertext'') = Some c" and
    g: "generateReceipt P c (modelName_of b) (timestamp_of P E) (analyzeWithMistral P E sp)
          = Inr r" and
    r: "POST P E (Some b) = ok_response P E (modelName_of b) (analyzeWithMistral P E sp) r"
    by blast
  from POST_200 [OF assms(4)] obtain c' sp' r' where
    c': "get_prop b' (js ''ciphertext'') = Some c'" and
    g': "generateReceipt P c' (modelName_of b') (timestamp_of P E) (analyzeWithMistral P E sp')
          = Inr r'" and
    r': "POST P E (Some b') = ok_response P E (modelName_of b') (analyzeWithMistral P E sp') r'"
    by blast
  from c c' assms(1) have cc: "c' = c" by simp
  from assms(5) have ss: "analyzeWithMistral P E sp = analyzeWithMistral P E sp'"
    unfolding r r' by (simp add: Scores_json_inject)
  from g g' have "r' = r"
    unfolding cc ss modelName_of_cong [OF assms(2)] by simp
  with r r' ss modelName_of_cong [OF assms(2)]
  show "POST P E (Some b) = POST P E (Some b')" by simp
next
  show "(\<exists>st msg. (st, msg) \<in> set generic_errors \<and> POST P E rq = error_response st msg)
          \<or> (\<exists>b0 c s r. rq = Some b0 \<and> get_prop b0 (js ''ciphertext'') = Some c
                 \<and> generateReceipt P c (modelName_of b0) (timestamp_of P E) s = Inr r
                 \<and> POST P E rq = ok_response P E (modelName_of b0) s r)"
    by (rule POST_shape)
qed

theorem response_reveals_no_secret_witness:
  "get_prop (toy_request sample_pitch) (js ''aes_key'')
     \<noteq> get_prop (toy_request2 sample_pitch) (js ''aes_key'')
   \<and> get_prop (toy_request sample_pitch) (js ''iv'')
     \<noteq> get_prop (toy_request2 sample_pitch) (js ''iv'')
   \<and> decryptPitchData toy (JStr (sample_pitch @ replicate 16 0x4B)) (JStr toy_key) (JStr toy_iv)
     \<noteq> decryptPitchData toy (JStr (sample_pitch @ replicate 16 0x4B)) (JStr toy_key2) (JStr toy_iv2)
   \<and> POST toy down_env (Some (toy_request sample_pitch))
     = POST toy down_env (Some (toy_request2 sample_pitch))
   \<and> status (POST toy down_env (Some (toy_request sample_pitch))) = 200"
proof -
  have 1: "get_prop (toy_request sample_pitch) (js ''ciphertext'')
           = get_prop (toy_request2 sample_pitch) (js ''ciphertext'')"
    by (simp add: toy_request2_props)
  have 2: "get_prop (toy_request sample_pitch) (js ''model'')
           = get_prop (toy_request2 sample_pitch) (js ''model'')"
    by (simp add: toy_request2_props)
  have 3: "status (POST toy down_env (Some (toy_request sample_pitch))) = 200"
    by (simp add: POST_toy_request_down respond_default sample_pitch_length)
  have 4: "status (POST toy down_env (Some (toy_request2 sample_pitch))) = 200"
    by (simp add: POST_toy_request2_down respond_default sample_pitch_length)
  have 5: "get_prop (body (POST toy down_env (Some (toy_request sample_pitch)))) (js ''scores'')
           = get_prop (body (POST toy down_env (Some (toy_request2 sample_pitch)))) (js ''scores'')"
    by (simp add: POST_toy_request_down POST_toy_request2_down respond_default
          sample_pitch_length)
  have k: "get_prop (toy_request sample_pitch) (js ''aes_key'')
     \<noteq> get_prop (toy_request2 sample_pitch) (js ''aes_key'')"
  proof -
    have "last toy_key \<noteq> last toy_key2" by (simp add: toy_key_def toy_key2_def)
    then have "toy_key \<noteq> toy_key2" by auto
    then show ?thesis by (simp add: toy_request2_props)
  qed
  have i: "get_prop (toy_request sample_pitch) (js ''iv'')
     \<noteq> get_prop (toy_request2 sample_pitch) (js ''iv'')"
  proof -
    have "last toy_iv \<noteq> last toy_iv2" by (simp add: toy_iv_def toy_iv2_def)
    then have "toy_iv \<noteq> toy_iv2" by auto
    then show ?thesis by (simp add: toy_request2_props)
  qed
  have p: "decryptPitchData toy (JStr (sample_pitch @ replicate 16 0x4B)) (JStr toy_key) (JStr toy_iv)
     \<noteq> decryptPitchData toy (JStr (sample_pitch @ replicate 16 0x4B)) (JStr toy_key2) (JStr toy_iv2)"
    by (simp add: toy_decrypt toy_decrypt2 sample_pitch_length) (simp add: sample_pitch_def js_def)
  from response_reveals_no_secret [OF 1 2 3 4 5] 3 k i p show ?thesis by blast
qed

text \<open>
  C10. An envelope with a 32-byte key and a 12-byte IV whose tag verifies but whose
  plaintext has fewer than 50 characters gets the response of an envelope whose tag
  does not verify: status 400 and the one message \<open>Failed to decrypt pitch data\<close>.
\<close>

theorem short_content_answered_like_tampering:
  assumes "decoded_envelope P b = Some (cb, kb, ib)" "length kb = 32" "length ib = 12"
      and "Decrypt P cb kb ib = Some plain" "length (utf8_decode P plain) < 50"
      and "decoded_envelope P b' = Some (cb', kb', ib')" "length kb' = 32" "length ib' = 12"
      and "Decrypt P cb' kb' ib' = None"
  shows "POST P E (Some b) = error_response 400 ''Failed to decrypt pitch data''
       \<and> POST P E' (Some b') = POST P E (Some b)"
proof -
  from POST_decoded [OF assms(1-3), of E] assms(4,5)
  have 1: "POST P E (Some b) = error_response 400 decrypt_failed"
    by (auto simp: MIN_PITCH_LENGTH_def)
  from POST_decoded [OF assms(6-8), of E'] assms(9)
  have 2: "POST P E' (Some b') = error_response 400 decrypt_failed"
    by auto
  from 1 2 show ?thesis by (simp add: decrypt_failed_def)
qed

theorem short_content_answered_like_tampering_witness:
  "POST toy down_env (Some (toy_request (replicate 10 0x41)))
     = error_response 400 ''Failed to decrypt pitch data''
   \<and> POST toy up_env (Some (tampered_request sample_pitch))
     = POST toy down_env (Some (toy_request (replicate 10 0x41)))"
proof -
  have short: "length (utf8_decode toy (map ucast (replicate 10 (0x41 :: 16 word)))) < 50"
    by simp
  show ?thesis
    by (rule short_content_answered_like_tampering
          [OF decoded_toy_request _ _ Decrypt_toy_request short
              decoded_tampered_request _ _ Decrypt_tampered_request]) simp_all
qed

end
